theory Spec2Isabelle
  imports Main "HOL-Library.Sublist"
begin

section \<open>Service records (package domain)\<close>

text \<open>
  The registry stores values of the Go struct \<^verbatim>\<open>domain.Service\<close>. Go strings are byte
  sequences and are modelled as \<^typ>\<open>string\<close>. The field \<^verbatim>\<open>Port\<close> has Go type
  \<^verbatim>\<open>int\<close>; the program only compares it, so it is an \<^typ>\<open>int\<close> here. A Go slice or
  map field distinguishes \<^verbatim>\<open>nil\<close> from an empty collection: \<open>None\<close> is
  \<^verbatim>\<open>nil\<close>, \<open>Some xs\<close> is a non-nil collection. A \<^verbatim>\<open>time.Time\<close> is modelled by its
  instant, an integer number of clock ticks.
\<close>

type_synonym time = int

type_synonym ServiceStatus = string

definition StatusHealthy :: ServiceStatus where
  "StatusHealthy = ''healthy''"

definition StatusUnhealthy :: ServiceStatus where
  "StatusUnhealthy = ''unhealthy''"

record Route =
  Path :: string
  Methods :: "string list"

record Service =
  ID :: string
  Name :: string
  Host :: string
  Port :: int
  Protocol :: string
  BasePath :: string
  Routes :: "Route list option"
  HealthCheck :: string
  Tags :: "string list option"
  Metadata :: "(string \<rightharpoonup> string) option"
  Status :: ServiceStatus
  LastHeartbeat :: time
  RegisteredAt :: time

text \<open>
  The request structs repeat field names of \<^verbatim>\<open>Service\<close>; their fields carry the
  prefixes \<open>reg_\<close> (\<^verbatim>\<open>RegisterServiceRequest\<close>) and \<open>upd_\<close>
  (\<^verbatim>\<open>UpdateServiceRequest\<close>).
\<close>

record RegisterServiceRequest =
  reg_Name :: string
  reg_Host :: string
  reg_Port :: int
  reg_Protocol :: string
  reg_BasePath :: string
  reg_Routes :: "Route list option"
  reg_HealthCheck :: string
  reg_Tags :: "string list option"
  reg_Metadata :: "(string \<rightharpoonup> string) option"

record UpdateServiceRequest =
  upd_Host :: string
  upd_Port :: int
  upd_Protocol :: string
  upd_BasePath :: string
  upd_Routes :: "Route list option"
  upd_HealthCheck :: string
  upd_Tags :: "string list option"
  upd_Metadata :: "(string \<rightharpoonup> string) option"

section \<open>The in-memory repository (package repository)\<close>

text \<open>
  \<^verbatim>\<open>MemoryRepository.services\<close> is a Go map from id to service. Every method takes
  the lock for its whole body, so a method is one atomic step: it takes the map and
  returns the Go result together with the map it leaves behind.
\<close>

datatype repo_error = ErrServiceNotFound | ErrServiceAlreadyExists

type_synonym services = "string \<rightharpoonup> Service"

definition NewMemoryRepository :: services where
  "NewMemoryRepository = Map.empty"

definition Create :: "services \<Rightarrow> Service \<Rightarrow> repo_error option \<times> services" where
  "Create r service =
     (if r (ID service) \<noteq> None then (Some ErrServiceAlreadyExists, r)
      else (None, r(ID service \<mapsto> service)))"

definition GetByID :: "services \<Rightarrow> string \<Rightarrow> repo_error + Service" where
  "GetByID r i = (case r i of None \<Rightarrow> Inl ErrServiceNotFound | Some service \<Rightarrow> Inr service)"

text \<open>
  \<^verbatim>\<open>GetAll\<close> ranges over the Go map, whose iteration order the language leaves open.
  The order the runtime picks is the argument \<open>order\<close>: a list of the keys of the map,
  each once (\<open>iteration_order\<close>).
\<close>

definition iteration_order :: "services \<Rightarrow> string list \<Rightarrow> bool" where
  "iteration_order r order \<longleftrightarrow> distinct order \<and> set order = dom r"

definition GetAll :: "services \<Rightarrow> string list \<Rightarrow> Service list" where
  "GetAll r order = List.map_filter r order"

definition Update :: "services \<Rightarrow> Service \<Rightarrow> repo_error option \<times> services" where
  "Update r service =
     (if r (ID service) = None then (Some ErrServiceNotFound, r)
      else (None, r(ID service \<mapsto> service)))"

definition Delete :: "services \<Rightarrow> string \<Rightarrow> repo_error option \<times> services" where
  "Delete r i =
     (if r i = None then (Some ErrServiceNotFound, r)
      else (None, r(i := None)))"

definition Exists :: "services \<Rightarrow> string \<Rightarrow> bool" where
  "Exists r i \<longleftrightarrow> r i \<noteq> None"

section \<open>The handlers (package handler)\<close>

text \<open>
  A handler answers with \<^verbatim>\<open>c.JSON(status, value)\<close>: a status code and a JSON value.
  The constructors of \<open>json\<close> are the shapes of value the handlers send.
\<close>

datatype bind_error = DecodeFailed | ValidationFailed

datatype json =
    ErrorJSON string
  | BindErrorJSON bind_error
  | ServiceJSON Service
  | ListJSON "Service list" int
  | MessageJSON string
  | HeartbeatJSON string time

type_synonym response = "int \<times> json"

abbreviation StatusOK :: int where "StatusOK \<equiv> 200"
abbreviation StatusCreated :: int where "StatusCreated \<equiv> 201"
abbreviation StatusBadRequest :: int where "StatusBadRequest \<equiv> 400"
abbreviation StatusNotFound :: int where "StatusNotFound \<equiv> 404"
abbreviation StatusInternalServerError :: int where "StatusInternalServerError \<equiv> 500"

fun Error :: "repo_error \<Rightarrow> string" where
  "Error ErrServiceNotFound = ''service not found''"
| "Error ErrServiceAlreadyExists = ''service already exists''"

text \<open>
  \<^verbatim>\<open>c.ShouldBindJSON(&req)\<close> is gin's: it decodes the body with encoding/json and then
  checks the \<^verbatim>\<open>binding\<close> tags of the struct. A body is \<open>Undecodable\<close> when decoding
  fails (no body, malformed JSON, a value of the wrong JSON type, a number outside Go's
  \<^verbatim>\<open>int\<close>), and \<open>Decoded req\<close> otherwise, a field missing from the JSON having its
  zero value in \<open>req\<close>. The tags: \<^verbatim>\<open>required\<close> refuses the zero value, \<^verbatim>\<open>min\<close> and
  \<^verbatim>\<open>max\<close> bound a number, \<^verbatim>\<open>omitempty\<close> skips the checks after it on a zero value.
\<close>

datatype 'a json_body = Undecodable | Decoded 'a

definition validate_RegisterServiceRequest :: "RegisterServiceRequest \<Rightarrow> bool" where
  "validate_RegisterServiceRequest req \<longleftrightarrow>
     reg_Name req \<noteq> '''' \<and> reg_Host req \<noteq> '''' \<and>
     reg_Port req \<noteq> 0 \<and> 1 \<le> reg_Port req \<and> reg_Port req \<le> 65535"

definition validate_UpdateServiceRequest :: "UpdateServiceRequest \<Rightarrow> bool" where
  "validate_UpdateServiceRequest req \<longleftrightarrow>
     upd_Port req = 0 \<or> (1 \<le> upd_Port req \<and> upd_Port req \<le> 65535)"

definition ShouldBindJSON :: "('a \<Rightarrow> bool) \<Rightarrow> 'a json_body \<Rightarrow> bind_error + 'a" where
  "ShouldBindJSON validate body =
     (case body of
        Undecodable \<Rightarrow> Inl DecodeFailed
      | Decoded req \<Rightarrow> if validate req then Inr req else Inl ValidationFailed)"

text \<open>
  \<^verbatim>\<open>Register\<close> calls \<^verbatim>\<open>uuid.New()\<close> once and \<^verbatim>\<open>time.Now()\<close> twice, first for
  \<^verbatim>\<open>LastHeartbeat\<close> and then for \<^verbatim>\<open>RegisteredAt\<close>. The identifier drawn and the two
  instants read are the arguments \<open>uuid\<close>, \<open>now1\<close> and \<open>now2\<close>.
\<close>

definition ServiceHandler_Register ::
  "services \<Rightarrow> string \<Rightarrow> time \<Rightarrow> time \<Rightarrow> RegisterServiceRequest json_body \<Rightarrow> response \<times> services" where
  "ServiceHandler_Register r uuid now1 now2 body =
     (case ShouldBindJSON validate_RegisterServiceRequest body of
        Inl err \<Rightarrow> ((StatusBadRequest, BindErrorJSON err), r)
      | Inr req \<Rightarrow>
          (let protocol = (if reg_Protocol req = '''' then ''http'' else reg_Protocol req);
               healthCheck = (if reg_HealthCheck req = '''' then ''/health'' else reg_HealthCheck req);
               service = \<lparr>ID = uuid, Name = reg_Name req, Host = reg_Host req, Port = reg_Port req,
                          Protocol = protocol, BasePath = reg_BasePath req, Routes = reg_Routes req,
                          HealthCheck = healthCheck, Tags = reg_Tags req, Metadata = reg_Metadata req,
                          Status = StatusHealthy, LastHeartbeat = now1, RegisteredAt = now2\<rparr>
           in case Create r service of
                (Some err, r') \<Rightarrow> ((StatusInternalServerError, ErrorJSON (Error err)), r')
              | (None, r') \<Rightarrow> ((StatusCreated, ServiceJSON service), r')))"

definition ServiceHandler_List :: "services \<Rightarrow> string list \<Rightarrow> response \<times> services" where
  "ServiceHandler_List r order =
     (let services = GetAll r order
      in ((StatusOK, ListJSON services (int (length services))), r))"

definition ServiceHandler_Get :: "services \<Rightarrow> string \<Rightarrow> response \<times> services" where
  "ServiceHandler_Get r i =
     (case GetByID r i of
        Inl err \<Rightarrow> ((StatusNotFound, ErrorJSON ''service not found''), r)
      | Inr service \<Rightarrow> ((StatusOK, ServiceJSON service), r))"

text \<open>
  \<^verbatim>\<open>GetByID\<close> hands out the pointer the map holds, so the assignments of \<^verbatim>\<open>Update\<close>
  and \<^verbatim>\<open>Heartbeat\<close> to \<^verbatim>\<open>service\<close> change the record stored under \<open>i\<close> at once,
  before \<^verbatim>\<open>h.repo.Update\<close> runs: \<open>r(i \<mapsto> service)\<close> is the map at that point.
\<close>

definition merge_update :: "Service \<Rightarrow> UpdateServiceRequest \<Rightarrow> Service" where
  "merge_update service req =
     (let service = (if upd_Host req \<noteq> '''' then service\<lparr>Host := upd_Host req\<rparr> else service);
          service = (if upd_Port req \<noteq> 0 then service\<lparr>Port := upd_Port req\<rparr> else service);
          service = (if upd_Protocol req \<noteq> '''' then service\<lparr>Protocol := upd_Protocol req\<rparr> else service);
          service = (if upd_BasePath req \<noteq> '''' then service\<lparr>BasePath := upd_BasePath req\<rparr> else service);
          service = (if upd_Routes req \<noteq> None then service\<lparr>Routes := upd_Routes req\<rparr> else service);
          service = (if upd_HealthCheck req \<noteq> '''' then service\<lparr>HealthCheck := upd_HealthCheck req\<rparr> else service);
          service = (if upd_Tags req \<noteq> None then service\<lparr>Tags := upd_Tags req\<rparr> else service);
          service = (if upd_Metadata req \<noteq> None then service\<lparr>Metadata := upd_Metadata req\<rparr> else service)
      in service)"

definition ServiceHandler_Update ::
  "services \<Rightarrow> string \<Rightarrow> UpdateServiceRequest json_body \<Rightarrow> response \<times> services" where
  "ServiceHandler_Update r i body =
     (case GetByID r i of
        Inl err \<Rightarrow> ((StatusNotFound, ErrorJSON ''service not found''), r)
      | Inr service \<Rightarrow>
          (case ShouldBindJSON validate_UpdateServiceRequest body of
             Inl err \<Rightarrow> ((StatusBadRequest, BindErrorJSON err), r)
           | Inr req \<Rightarrow>
               (let service = merge_update service req
                in case Update (r(i \<mapsto> service)) service of
                     (Some err, r') \<Rightarrow> ((StatusInternalServerError, ErrorJSON (Error err)), r')
                   | (None, r') \<Rightarrow> ((StatusOK, ServiceJSON service), r'))))"

definition ServiceHandler_Unregister :: "services \<Rightarrow> string \<Rightarrow> response \<times> services" where
  "ServiceHandler_Unregister r i =
     (case GetByID r i of
        Inl err \<Rightarrow> ((StatusNotFound, ErrorJSON ''service not found''), r)
      | Inr service \<Rightarrow>
          (case Delete r i of
             (Some err, r') \<Rightarrow> ((StatusInternalServerError, ErrorJSON (Error err)), r')
           | (None, r') \<Rightarrow> ((StatusOK, MessageJSON ''service unregistered successfully''), r')))"

definition ServiceHandler_Heartbeat :: "services \<Rightarrow> string \<Rightarrow> time \<Rightarrow> response \<times> services" where
  "ServiceHandler_Heartbeat r i now =
     (case GetByID r i of
        Inl err \<Rightarrow> ((StatusNotFound, ErrorJSON ''service not found''), r)
      | Inr service \<Rightarrow>
          (let service = service\<lparr>LastHeartbeat := now\<rparr>;
               service = service\<lparr>Status := StatusHealthy\<rparr>
           in case Update (r(i \<mapsto> service)) service of
                (Some err, r') \<Rightarrow> ((StatusInternalServerError, ErrorJSON (Error err)), r')
              | (None, r') \<Rightarrow>
                  ((StatusOK, HeartbeatJSON ''heartbeat received'' (LastHeartbeat service)), r')))"

text \<open>
  \<^verbatim>\<open>Search\<close> uses \<^verbatim>\<open>strings.HasPrefix\<close>, \<^verbatim>\<open>strings.Contains\<close> and
  \<^verbatim>\<open>strings.ToLower\<close> of Go's library. The first two are written out on byte
  sequences. \<^verbatim>\<open>strings.ToLower\<close> follows the Unicode tables and is an argument
  \<open>ToLower\<close> of the handler; \<open>ascii_ToLower\<close> is what it computes on ASCII text.
\<close>

definition HasPrefix :: "string \<Rightarrow> string \<Rightarrow> bool" where
  "HasPrefix s pre \<longleftrightarrow> length pre \<le> length s \<and> take (length pre) s = pre"

fun Contains :: "string \<Rightarrow> string \<Rightarrow> bool" where
  "Contains [] substr = (substr = [])"
| "Contains (c # s) substr = (HasPrefix (c # s) substr \<or> Contains s substr)"

definition ascii_ToLower :: "string \<Rightarrow> string" where
  "ascii_ToLower s =
     map (\<lambda>c. if (65::nat) \<le> of_char c \<and> of_char c \<le> (90::nat)
              then char_of (of_char c + (32::nat)) else c) s"

text \<open>Ranging over a slice that is \<^verbatim>\<open>nil\<close> runs the loop body no time.\<close>

fun elems :: "'a list option \<Rightarrow> 'a list" where
  "elems None = []"
| "elems (Some xs) = xs"

fun route_found :: "string \<Rightarrow> Route list \<Rightarrow> bool" where
  "route_found route [] = False"
| "route_found route (rt # rts) =
     (if HasPrefix (Path rt) route \<or> Path rt = route then True else route_found route rts)"

fun tag_found :: "string \<Rightarrow> string list \<Rightarrow> bool" where
  "tag_found tag [] = False"
| "tag_found tag (t # ts) = (if t = tag then True else tag_found tag ts)"

text \<open>
  The loop of \<^verbatim>\<open>Search\<close> over \<^verbatim>\<open>services\<close>; each \<^verbatim>\<open>continue\<close> goes on with
  the rest and \<open>results\<close> as it is. The slice \<^verbatim>\<open>results\<close> starts \<^verbatim>\<open>nil\<close>, which is
  the empty list here: its length is 0 all the same.
\<close>

fun Search_loop ::
  "(string \<Rightarrow> string) \<Rightarrow> string \<Rightarrow> string \<Rightarrow> string \<Rightarrow> Service list \<Rightarrow> Service list \<Rightarrow> Service list" where
  "Search_loop ToLower route name tag [] results = results"
| "Search_loop ToLower route name tag (svc # services) results =
     (if route \<noteq> '''' \<and> \<not> route_found route (elems (Routes svc))
        then Search_loop ToLower route name tag services results
      else if name \<noteq> '''' \<and> \<not> Contains (ToLower (Name svc)) (ToLower name)
        then Search_loop ToLower route name tag services results
      else if tag \<noteq> '''' \<and> \<not> tag_found tag (elems (Tags svc))
        then Search_loop ToLower route name tag services results
      else Search_loop ToLower route name tag services (results @ [svc]))"

definition ServiceHandler_Search ::
  "(string \<Rightarrow> string) \<Rightarrow> services \<Rightarrow> string list \<Rightarrow> string \<Rightarrow> string \<Rightarrow> string \<Rightarrow> response \<times> services" where
  "ServiceHandler_Search ToLower r order route name tag =
     (let services = GetAll r order;
          results = Search_loop ToLower route name tag services []
      in ((StatusOK, ListJSON results (int (length results))), r))"

text \<open>
  What \<^verbatim>\<open>Search\<close> is to return, in the words of its description: every filter that
  is given (not the empty string) holds of the record.
\<close>

definition search_matches :: "(string \<Rightarrow> string) \<Rightarrow> string \<Rightarrow> string \<Rightarrow> string \<Rightarrow> Service \<Rightarrow> bool" where
  "search_matches ToLower route name tag svc \<longleftrightarrow>
     (route = '''' \<or> (\<exists>rt \<in> set (elems (Routes svc)). Path rt = route \<or> prefix route (Path rt)))
     \<and> (name = '''' \<or> sublist (ToLower name) (ToLower (Name svc)))
     \<and> (tag = '''' \<or> tag \<in> set (elems (Tags svc)))"

section \<open>The routes and the states they reach (package bootstrap)\<close>

text \<open>
  \<^verbatim>\<open>InitRouter\<close> binds seven routes under \<^verbatim>\<open>/api/v1/services\<close> to the handlers. A
  request carries, with its path parameters and body, what the handler draws from
  outside during the call: the identifier of \<^verbatim>\<open>uuid.New()\<close>, the instants of
  \<^verbatim>\<open>time.Now()\<close>, the iteration order of the map.
\<close>

datatype request =
    POST_register string time time "RegisterServiceRequest json_body"
  | GET_list "string list"
  | GET_search "string list" string string string
  | GET_id string
  | PUT_update string "UpdateServiceRequest json_body"
  | DELETE_unregister string
  | PUT_heartbeat string time

fun serve :: "(string \<Rightarrow> string) \<Rightarrow> services \<Rightarrow> request \<Rightarrow> response \<times> services" where
  "serve ToLower r (POST_register uuid now1 now2 body) = ServiceHandler_Register r uuid now1 now2 body"
| "serve ToLower r (GET_list order) = ServiceHandler_List r order"
| "serve ToLower r (GET_search order route name tag) = ServiceHandler_Search ToLower r order route name tag"
| "serve ToLower r (GET_id i) = ServiceHandler_Get r i"
| "serve ToLower r (PUT_update i body) = ServiceHandler_Update r i body"
| "serve ToLower r (DELETE_unregister i) = ServiceHandler_Unregister r i"
| "serve ToLower r (PUT_heartbeat i now) = ServiceHandler_Heartbeat r i now"

text \<open>The states of the registry: the empty repository, and what a request leaves.\<close>

inductive reachable :: "services \<Rightarrow> bool" where
  start: "reachable NewMemoryRepository"
| request: "reachable r \<Longrightarrow> reachable (snd (serve ToLower r req))"

text \<open>
  Go's \<^verbatim>\<open>time.Now()\<close> carries a monotonic reading, by which instants of one process
  compare: a later call never reads an earlier instant. \<open>reachable_at t r\<close>: the
  requests so far have read the clock in that way, \<open>t\<close> is the latest instant read,
  and they leave \<open>r\<close>.
\<close>

fun clock_readings :: "request \<Rightarrow> time list" where
  "clock_readings (POST_register uuid now1 now2 body) = [now1, now2]"
| "clock_readings (PUT_heartbeat i now) = [now]"
| "clock_readings req = []"

inductive reachable_at :: "time \<Rightarrow> services \<Rightarrow> bool" where
  start: "reachable_at t NewMemoryRepository"
| request: "reachable_at t r \<Longrightarrow> sorted (t # clock_readings req) \<Longrightarrow>
            reachable_at (last (t # clock_readings req)) (snd (serve ToLower r req))"

section \<open>The client (package servicediscovery)\<close>

text \<open>
  \<^verbatim>\<open>doRequest\<close> builds the request and calls \<^verbatim>\<open>c.httpClient.Do\<close> in a loop. What
  lies outside the program is an argument: \<open>newRequest\<close> is the error of
  \<^verbatim>\<open>http.NewRequestWithContext\<close> (the same at every turn, \<open>None\<close> when it builds the
  request), and \<open>Do k\<close> is what the call number \<open>k\<close> of \<^verbatim>\<open>c.httpClient.Do\<close> gives,
  an error of the transport or a response. The calls made and the delays slept are
  listed in order in a trace.
\<close>

type_synonym duration = int

record clientOptions =
  timeout :: duration
  retries :: int
  retryDelay :: duration

definition defaultOptions :: clientOptions where
  "defaultOptions = \<lparr>timeout = 10 * 1000000000, retries = 3, retryDelay = 1 * 1000000000\<rparr>"

text \<open>
  A response as the client reads it: the status code, what
  \<^verbatim>\<open>json.Unmarshal(body, &errResp)\<close> finds (\<open>None\<close> when it fails, otherwise the
  member \<^verbatim>\<open>error\<close>, empty when the body has none), and what decoding the body into
  the type the call expects gives (\<open>None\<close> when it fails).
\<close>

record 'a Response =
  StatusCode :: int
  errResp :: "string option"
  decoded :: "'a option"

text \<open>
  The errors of a client call. \<open>Err e\<close> is an error of the library handed on as it
  is, \<open>ErrConnectionFailed e\<close> is \<^verbatim>\<open>fmt.Errorf("%w: %v", ErrConnectionFailed, e)\<close>,
  \<open>ServerMessage\<close> and \<open>UnexpectedStatus\<close> are the two errors of
  \<^verbatim>\<open>parseError\<close>. \<open>NilDereference\<close> is not returned: it is the run-time panic of
  reading \<^verbatim>\<open>resp.StatusCode\<close> through a nil \<^verbatim>\<open>resp\<close>.
\<close>

datatype 'e client_error =
    Client_ErrServiceNotFound
  | ErrConnectionFailed 'e
  | Err 'e
  | ServerMessage string
  | UnexpectedStatus int
  | DecodeError
  | NilDereference

datatype effect = Called | Slept duration

function doRequest_from ::
  "clientOptions \<Rightarrow> 'e option \<Rightarrow> (nat \<Rightarrow> 'e + 'a Response) \<Rightarrow> int \<Rightarrow> 'e option \<Rightarrow> effect list
   \<Rightarrow> ('a Response option \<times> 'e client_error option) \<times> effect list" where
  "doRequest_from opts newRequest Do i lastErr trace =
     (if i \<le> retries opts then
        (case newRequest of
           Some err \<Rightarrow> ((None, Some (Err err)), trace)
         | None \<Rightarrow>
             (case Do (nat i) of
                Inl err \<Rightarrow>
                  (if i < retries opts
                     then doRequest_from opts newRequest Do (i + 1) (Some err)
                            (trace @ [Called, Slept (retryDelay opts)])
                   else ((None, Some (ErrConnectionFailed err)), trace @ [Called]))
              | Inr resp \<Rightarrow> ((Some resp, None), trace @ [Called])))
      else ((None, map_option Err lastErr), trace))"
  by pat_completeness auto
termination
  by (relation "measure (\<lambda>(opts, newRequest, Do, i, lastErr, trace). nat (retries opts + 1 - i))") auto

definition doRequest ::
  "clientOptions \<Rightarrow> 'e option \<Rightarrow> (nat \<Rightarrow> 'e + 'a Response)
   \<Rightarrow> ('a Response option \<times> 'e client_error option) \<times> effect list" where
  "doRequest opts newRequest Do = doRequest_from opts newRequest Do 0 None []"

definition parseError :: "'a Response \<Rightarrow> 'e client_error" where
  "parseError resp =
     (case errResp resp of
        Some e \<Rightarrow> if e \<noteq> '''' then ServerMessage e else UnexpectedStatus (StatusCode resp)
      | None \<Rightarrow> UnexpectedStatus (StatusCode resp))"

text \<open>
  The seven calls. The bodies \<^verbatim>\<open>Register\<close> and \<^verbatim>\<open>Update\<close> send are structs of
  strings, numbers, slices and string maps, which \<^verbatim>\<open>json.Marshal\<close> always encodes.
  Each call returns its Go result and the trace of \<^verbatim>\<open>doRequest\<close>.
\<close>

definition Client_Register ::
  "clientOptions \<Rightarrow> 'e option \<Rightarrow> (nat \<Rightarrow> 'e + 'a Response) \<Rightarrow> ('e client_error + 'a) \<times> effect list" where
  "Client_Register opts newRequest Do =
     (case doRequest opts newRequest Do of
        ((resp, Some err), trace) \<Rightarrow> (Inl err, trace)
      | ((None, None), trace) \<Rightarrow> (Inl NilDereference, trace)
      | ((Some resp, None), trace) \<Rightarrow>
          (if StatusCode resp \<noteq> StatusCreated then (Inl (parseError resp), trace)
           else case decoded resp of
                  None \<Rightarrow> (Inl DecodeError, trace)
                | Some service \<Rightarrow> (Inr service, trace)))"

definition Client_Get ::
  "clientOptions \<Rightarrow> 'e option \<Rightarrow> (nat \<Rightarrow> 'e + 'a Response) \<Rightarrow> ('e client_error + 'a) \<times> effect list" where
  "Client_Get opts newRequest Do =
     (case doRequest opts newRequest Do of
        ((resp, Some err), trace) \<Rightarrow> (Inl err, trace)
      | ((None, None), trace) \<Rightarrow> (Inl NilDereference, trace)
      | ((Some resp, None), trace) \<Rightarrow>
          (if StatusCode resp = StatusNotFound then (Inl Client_ErrServiceNotFound, trace)
           else if StatusCode resp \<noteq> StatusOK then (Inl (parseError resp), trace)
           else case decoded resp of
                  None \<Rightarrow> (Inl DecodeError, trace)
                | Some service \<Rightarrow> (Inr service, trace)))"

definition Client_List ::
  "clientOptions \<Rightarrow> 'e option \<Rightarrow> (nat \<Rightarrow> 'e + 'a Response) \<Rightarrow> ('e client_error + 'a) \<times> effect list" where
  "Client_List opts newRequest Do =
     (case doRequest opts newRequest Do of
        ((resp, Some err), trace) \<Rightarrow> (Inl err, trace)
      | ((None, None), trace) \<Rightarrow> (Inl NilDereference, trace)
      | ((Some resp, None), trace) \<Rightarrow>
          (if StatusCode resp \<noteq> StatusOK then (Inl (parseError resp), trace)
           else case decoded resp of
                  None \<Rightarrow> (Inl DecodeError, trace)
                | Some listResp \<Rightarrow> (Inr listResp, trace)))"

definition Client_Search ::
  "clientOptions \<Rightarrow> 'e option \<Rightarrow> (nat \<Rightarrow> 'e + 'a Response) \<Rightarrow> ('e client_error + 'a) \<times> effect list" where
  "Client_Search opts newRequest Do =
     (case doRequest opts newRequest Do of
        ((resp, Some err), trace) \<Rightarrow> (Inl err, trace)
      | ((None, None), trace) \<Rightarrow> (Inl NilDereference, trace)
      | ((Some resp, None), trace) \<Rightarrow>
          (if StatusCode resp \<noteq> StatusOK then (Inl (parseError resp), trace)
           else case decoded resp of
                  None \<Rightarrow> (Inl DecodeError, trace)
                | Some listResp \<Rightarrow> (Inr listResp, trace)))"

definition Client_Update ::
  "clientOptions \<Rightarrow> 'e option \<Rightarrow> (nat \<Rightarrow> 'e + 'a Response) \<Rightarrow> ('e client_error + 'a) \<times> effect list" where
  "Client_Update opts newRequest Do =
     (case doRequest opts newRequest Do of
        ((resp, Some err), trace) \<Rightarrow> (Inl err, trace)
      | ((None, None), trace) \<Rightarrow> (Inl NilDereference, trace)
      | ((Some resp, None), trace) \<Rightarrow>
          (if StatusCode resp = StatusNotFound then (Inl Client_ErrServiceNotFound, trace)
           else if StatusCode resp \<noteq> StatusOK then (Inl (parseError resp), trace)
           else case decoded resp of
                  None \<Rightarrow> (Inl DecodeError, trace)
                | Some service \<Rightarrow> (Inr service, trace)))"

definition Client_Unregister ::
  "clientOptions \<Rightarrow> 'e option \<Rightarrow> (nat \<Rightarrow> 'e + 'a Response) \<Rightarrow> 'e client_error option \<times> effect list" where
  "Client_Unregister opts newRequest Do =
     (case doRequest opts newRequest Do of
        ((resp, Some err), trace) \<Rightarrow> (Some err, trace)
      | ((None, None), trace) \<Rightarrow> (Some NilDereference, trace)
      | ((Some resp, None), trace) \<Rightarrow>
          (if StatusCode resp = StatusNotFound then (Some Client_ErrServiceNotFound, trace)
           else if StatusCode resp \<noteq> StatusOK then (Some (parseError resp), trace)
           else (None, trace)))"

definition Client_Heartbeat ::
  "clientOptions \<Rightarrow> 'e option \<Rightarrow> (nat \<Rightarrow> 'e + 'a Response) \<Rightarrow> 'e client_error option \<times> effect list" where
  "Client_Heartbeat opts newRequest Do =
     (case doRequest opts newRequest Do of
        ((resp, Some err), trace) \<Rightarrow> (Some err, trace)
      | ((None, None), trace) \<Rightarrow> (Some NilDereference, trace)
      | ((Some resp, None), trace) \<Rightarrow>
          (if StatusCode resp = StatusNotFound then (Some Client_ErrServiceNotFound, trace)
           else if StatusCode resp \<noteq> StatusOK then (Some (parseError resp), trace)
           else (None, trace)))"

text \<open>
  The trace of a call that is answered, or gives up, at call number \<open>k\<close> of the
  transport: \<open>k\<close> failed calls, each followed by one delay, and the last call.
\<close>

fun retry_trace :: "nat \<Rightarrow> duration \<Rightarrow> effect list" where
  "retry_trace 0 d = [Called]"
| "retry_trace (Suc k) d = Called # Slept d # retry_trace k d"

section \<open>Records of the test suites\<close>

text \<open>
  \<^verbatim>\<open>createTestService\<close> of the repository's tests; it reads the clock twice.
\<close>

definition createTestService :: "string \<Rightarrow> string \<Rightarrow> time \<Rightarrow> time \<Rightarrow> Service" where
  "createTestService i name now1 now2 =
     \<lparr>ID = i, Name = name, Host = ''localhost'', Port = 8080, Protocol = ''http'',
      BasePath = '''', Routes = None, HealthCheck = '''', Tags = None, Metadata = None,
      Status = StatusHealthy, LastHeartbeat = now1, RegisteredAt = now2\<rparr>"

text \<open>The record of \<^verbatim>\<open>TestServiceWithRoutes\<close>.\<close>

definition serviceWithRoutes :: "time \<Rightarrow> time \<Rightarrow> Service" where
  "serviceWithRoutes now1 now2 =
     \<lparr>ID = ''1'', Name = ''api-service'', Host = ''localhost'', Port = 8080, Protocol = ''http'',
      BasePath = ''/api/v1'',
      Routes = Some [\<lparr>Path = ''/users'', Methods = [''GET'', ''POST'']\<rparr>,
                     \<lparr>Path = ''/orders'', Methods = [''GET'']\<rparr>],
      HealthCheck = ''/health'', Tags = Some [''api'', ''v1''],
      Metadata = Some [''version'' \<mapsto> ''1.0.0''],
      Status = StatusHealthy, LastHeartbeat = now1, RegisteredAt = now2\<rparr>"

text \<open>The requests of \<^verbatim>\<open>TestServiceLifecycle\<close>, and the record \<^verbatim>\<open>Register\<close> makes of the first.\<close>

definition lifecycle_service :: RegisterServiceRequest where
  "lifecycle_service =
     \<lparr>reg_Name = ''lifecycle-service'', reg_Host = ''127.0.0.1'', reg_Port = 4000,
      reg_Protocol = '''', reg_BasePath = '''', reg_Routes = None, reg_HealthCheck = '''',
      reg_Tags = None, reg_Metadata = None\<rparr>"

definition lifecycle_update :: UpdateServiceRequest where
  "lifecycle_update =
     \<lparr>upd_Host = '''', upd_Port = 5000, upd_Protocol = '''', upd_BasePath = '''',
      upd_Routes = None, upd_HealthCheck = '''', upd_Tags = None, upd_Metadata = None\<rparr>"

definition lifecycle_registered :: "string \<Rightarrow> time \<Rightarrow> time \<Rightarrow> Service" where
  "lifecycle_registered uuid now1 now2 =
     \<lparr>ID = uuid, Name = ''lifecycle-service'', Host = ''127.0.0.1'', Port = 4000,
      Protocol = ''http'', BasePath = '''', Routes = None, HealthCheck = ''/health'',
      Tags = None, Metadata = None, Status = StatusHealthy,
      LastHeartbeat = now1, RegisteredAt = now2\<rparr>"

text \<open>
  A transport that refuses the connection \<open>n\<close> times and then answers \<open>resp\<close>.
\<close>

definition refused_then :: "nat \<Rightarrow> 'a Response \<Rightarrow> nat \<Rightarrow> string + 'a Response" where
  "refused_then n resp k = (if k < n then Inl ''connection refused'' else Inr resp)"

section \<open>Repository: error cases and frame\<close>

text \<open>
  C7. \<^verbatim>\<open>Create\<close> returns \<^verbatim>\<open>ErrServiceAlreadyExists\<close> exactly when the id of the
  record is a key of the map, and then leaves the map as it was. \<^verbatim>\<open>Update\<close> returns
  \<^verbatim>\<open>ErrServiceNotFound\<close> exactly when the id is not a key, and otherwise the map holds
  the given record, whole, under that id. \<^verbatim>\<open>Delete\<close> returns
  \<^verbatim>\<open>ErrServiceNotFound\<close> exactly when the id is not a key, leaving the map as it was,
  and otherwise removes the key. No other error is returned, and a successful call
  changes the map at the given id only.
\<close>

theorem repository_errors_and_frame:
  "(fst (Create r s) = Some ErrServiceAlreadyExists \<longleftrightarrow> ID s \<in> dom r)
   \<and> (fst (Create r s) \<noteq> None \<longrightarrow> fst (Create r s) = Some ErrServiceAlreadyExists \<and> snd (Create r s) = r)
   \<and> (fst (Create r s) = None \<longrightarrow>
        snd (Create r s) (ID s) = Some s \<and> (\<forall>k. k \<noteq> ID s \<longrightarrow> snd (Create r s) k = r k))
   \<and> (fst (Update r s) = Some ErrServiceNotFound \<longleftrightarrow> ID s \<notin> dom r)
   \<and> (fst (Update r s) \<noteq> None \<longrightarrow> fst (Update r s) = Some ErrServiceNotFound \<and> snd (Update r s) = r)
   \<and> (fst (Update r s) = None \<longrightarrow>
        snd (Update r s) (ID s) = Some s \<and> (\<forall>k. k \<noteq> ID s \<longrightarrow> snd (Update r s) k = r k))
   \<and> (fst (Delete r i) = Some ErrServiceNotFound \<longleftrightarrow> i \<notin> dom r)
   \<and> (fst (Delete r i) \<noteq> None \<longrightarrow> fst (Delete r i) = Some ErrServiceNotFound \<and> snd (Delete r i) = r)
   \<and> (fst (Delete r i) = None \<longrightarrow>
        snd (Delete r i) i = None \<and> (\<forall>k. k \<noteq> i \<longrightarrow> snd (Delete r i) k = r k))"
  by (auto simp: Create_def Update_def Delete_def)

theorem repository_errors_and_frame_witness:
  "fst (Create NewMemoryRepository (createTestService ''1'' ''test-service'' 5 6)) = None
   \<and> snd (Create NewMemoryRepository (createTestService ''1'' ''test-service'' 5 6)) ''1''
       = Some (createTestService ''1'' ''test-service'' 5 6)
   \<and> fst (Update NewMemoryRepository (createTestService ''1'' ''test-service'' 5 6)) = Some ErrServiceNotFound
   \<and> snd (Update NewMemoryRepository (createTestService ''1'' ''test-service'' 5 6)) = NewMemoryRepository
   \<and> fst (Delete NewMemoryRepository ''1'') = Some ErrServiceNotFound
   \<and> snd (Delete NewMemoryRepository ''1'') = NewMemoryRepository
   \<and> fst (Create [''1'' \<mapsto> createTestService ''1'' ''test-service'' 5 6]
                  (createTestService ''1'' ''updated'' 7 8)) = Some ErrServiceAlreadyExists
   \<and> snd (Create [''1'' \<mapsto> createTestService ''1'' ''test-service'' 5 6]
                  (createTestService ''1'' ''updated'' 7 8))
       = [''1'' \<mapsto> createTestService ''1'' ''test-service'' 5 6]
   \<and> fst (Update [''1'' \<mapsto> createTestService ''1'' ''test-service'' 5 6]
                  (createTestService ''1'' ''updated'' 7 8)) = None
   \<and> snd (Update [''1'' \<mapsto> createTestService ''1'' ''test-service'' 5 6]
                  (createTestService ''1'' ''updated'' 7 8)) ''1''
       = Some (createTestService ''1'' ''updated'' 7 8)
   \<and> fst (Delete [''1'' \<mapsto> createTestService ''1'' ''test-service'' 5 6] ''1'') = None
   \<and> snd (Delete [''1'' \<mapsto> createTestService ''1'' ''test-service'' 5 6] ''1'') ''1'' = None"
proof -
  let ?s = "createTestService ''1'' ''test-service'' 5 6"
  let ?u = "createTestService ''1'' ''updated'' 7 8"
  have absent: "ID ?s \<notin> dom NewMemoryRepository" "''1'' \<notin> dom NewMemoryRepository"
    by (simp_all add: NewMemoryRepository_def)
  have present: "ID ?u \<in> dom [''1'' \<mapsto> ?s]" "''1'' \<in> dom [''1'' \<mapsto> ?s]"
    by (simp_all add: createTestService_def)
  have ids: "ID ?s = ''1''" "ID ?u = ''1''"
    by (simp_all add: createTestService_def)
  from absent present ids
    repository_errors_and_frame [of NewMemoryRepository ?s "''1''"]
    repository_errors_and_frame [of "[''1'' \<mapsto> ?s]" ?u "''1''"]
  show ?thesis
    by (metis option.distinct(1))
qed

section \<open>Search\<close>

lemma HasPrefix_prefix: "HasPrefix s pre \<longleftrightarrow> prefix pre s"
  unfolding HasPrefix_def
proof
  assume "length pre \<le> length s \<and> take (length pre) s = pre"
  then have "pre = take (length pre) s" by simp
  then show "prefix pre s" by (metis take_is_prefix)
next
  assume "prefix pre s"
  then obtain zs where "s = pre @ zs" by (auto simp: prefix_def)
  then show "length pre \<le> length s \<and> take (length pre) s = pre" by simp
qed

lemma Contains_sublist: "Contains s substr \<longleftrightarrow> sublist substr s"
  by (induction s) (simp_all add: HasPrefix_prefix sublist_Cons_right)

lemma route_found_iff:
  "route_found route rts \<longleftrightarrow> (\<exists>rt \<in> set rts. Path rt = route \<or> prefix route (Path rt))"
  by (induction rts) (auto simp: HasPrefix_prefix)

lemma tag_found_iff: "tag_found tag ts \<longleftrightarrow> tag \<in> set ts"
  by (induction ts) auto

lemma Search_loop_filter:
  "Search_loop ToLower route name tag services results
     = results @ filter (search_matches ToLower route name tag) services"
  by (induction services arbitrary: results)
     (auto simp: search_matches_def route_found_iff tag_found_iff Contains_sublist)

lemma set_map_filter_iff: "y \<in> set (List.map_filter f xs) \<longleftrightarrow> (\<exists>x \<in> set xs. f x = Some y)"
  by (induction xs) (auto split: option.splits)

lemma set_GetAll: "iteration_order r order \<Longrightarrow> set (GetAll r order) = ran r"
  by (fastforce simp: iteration_order_def GetAll_def set_map_filter_iff ran_def dom_def)

lemma search_matches_no_filter: "search_matches ToLower [] [] [] svc"
  by (simp add: search_matches_def)

text \<open>
  C6. Given an iteration order of the map, \<^verbatim>\<open>Search\<close> answers 200 with exactly the
  records of the store that satisfy every filter given: the route filter when some
  route of the record has a path equal to the query or with the query as a prefix, the
  name filter when the lower-cased name contains the lower-cased query, the tag filter
  when the query is a member of the tags. They come in iteration order, no filter
  returns every record, the count is the number of records returned, and the store is
  as it was.
\<close>

theorem search_returns_matches:
  "iteration_order r order \<Longrightarrow>
   (\<exists>results.
      ServiceHandler_Search ToLower r order route name tag
        = ((StatusOK, ListJSON results (int (length results))), r)
      \<and> results = filter (search_matches ToLower route name tag) (GetAll r order)
      \<and> set results = {svc \<in> ran r. search_matches ToLower route name tag svc}
      \<and> (route = '''' \<and> name = '''' \<and> tag = '''' \<longrightarrow> set results = ran r))"
  by (auto simp: ServiceHandler_Search_def Let_def Search_loop_filter set_GetAll
        search_matches_no_filter)

theorem search_returns_matches_witness:
  "iteration_order [''1'' \<mapsto> serviceWithRoutes 5 6, ''2'' \<mapsto> createTestService ''2'' ''other'' 7 8]
       [''2'', ''1'']
   \<and> ServiceHandler_Search ascii_ToLower
       [''1'' \<mapsto> serviceWithRoutes 5 6, ''2'' \<mapsto> createTestService ''2'' ''other'' 7 8]
       [''2'', ''1''] ''/us'' ''API-S'' ''v1''
     = ((StatusOK, ListJSON [serviceWithRoutes 5 6] 1),
        [''1'' \<mapsto> serviceWithRoutes 5 6, ''2'' \<mapsto> createTestService ''2'' ''other'' 7 8])"
proof -
  let ?r = "[''1'' \<mapsto> serviceWithRoutes 5 6, ''2'' \<mapsto> createTestService ''2'' ''other'' 7 8]"
  have ord: "iteration_order ?r [''2'', ''1'']"
    by (auto simp: iteration_order_def)
  have all: "GetAll ?r [''2'', ''1''] = [createTestService ''2'' ''other'' 7 8, serviceWithRoutes 5 6]"
    by (simp add: GetAll_def)
  have yes: "search_matches ascii_ToLower ''/us'' ''API-S'' ''v1'' (serviceWithRoutes 5 6)"
    by (simp add: search_matches_def serviceWithRoutes_def ascii_ToLower_def
          char_of_def bit_iff_odd Contains_sublist [symmetric] HasPrefix_def)
  have no: "\<not> search_matches ascii_ToLower ''/us'' ''API-S'' ''v1'' (createTestService ''2'' ''other'' 7 8)"
    by (simp add: search_matches_def createTestService_def)
  from search_returns_matches [OF ord, of ascii_ToLower "''/us''" "''API-S''" "''v1''"] all yes no ord
  show ?thesis by auto
qed

section \<open>The handlers, case by case\<close>

lemma merge_update_fields:
  "Host (merge_update s req) = (if upd_Host req = '''' then Host s else upd_Host req)"
  "Port (merge_update s req) = (if upd_Port req = 0 then Port s else upd_Port req)"
  "Protocol (merge_update s req) = (if upd_Protocol req = '''' then Protocol s else upd_Protocol req)"
  "BasePath (merge_update s req) = (if upd_BasePath req = '''' then BasePath s else upd_BasePath req)"
  "Routes (merge_update s req) = (if upd_Routes req = None then Routes s else upd_Routes req)"
  "HealthCheck (merge_update s req) = (if upd_HealthCheck req = '''' then HealthCheck s else upd_HealthCheck req)"
  "Tags (merge_update s req) = (if upd_Tags req = None then Tags s else upd_Tags req)"
  "Metadata (merge_update s req) = (if upd_Metadata req = None then Metadata s else upd_Metadata req)"
  by (simp_all add: merge_update_def Let_def)

lemma merge_update_frame:
  "ID (merge_update s req) = ID s"
  "Name (merge_update s req) = Name s"
  "Status (merge_update s req) = Status s"
  "LastHeartbeat (merge_update s req) = LastHeartbeat s"
  "RegisteredAt (merge_update s req) = RegisteredAt s"
  by (simp_all add: merge_update_def Let_def)

lemma Update_handler_bound:
  "r i = Some s \<Longrightarrow> ID s = i \<Longrightarrow> validate_UpdateServiceRequest req \<Longrightarrow>
   ServiceHandler_Update r i (Decoded req)
     = ((StatusOK, ServiceJSON (merge_update s req)), r(i \<mapsto> merge_update s req))"
  by (simp add: ServiceHandler_Update_def GetByID_def ShouldBindJSON_def Let_def Update_def
        merge_update_frame)

lemma Update_handler_absent:
  "r i = None \<Longrightarrow>
   ServiceHandler_Update r i body = ((StatusNotFound, ErrorJSON ''service not found''), r)"
  by (simp add: ServiceHandler_Update_def GetByID_def)

lemma Update_handler_unbound:
  "r i = Some s \<Longrightarrow> ShouldBindJSON validate_UpdateServiceRequest body = Inl err \<Longrightarrow>
   ServiceHandler_Update r i body = ((StatusBadRequest, BindErrorJSON err), r)"
  by (simp add: ServiceHandler_Update_def GetByID_def)

lemma Update_handler_stored:
  "r i = Some s \<Longrightarrow> ServiceHandler_Update r i body = ((StatusOK, out), r') \<Longrightarrow>
   \<exists>req. out = ServiceJSON (merge_update s req) \<and> r' i = Some (merge_update s req)"
  by (auto simp: ServiceHandler_Update_def GetByID_def Let_def Update_def
        split: sum.splits if_splits)

section \<open>Invariants\<close>

lemmas handler_defs =
  ServiceHandler_Register_def ServiceHandler_List_def ServiceHandler_Get_def
  ServiceHandler_Update_def ServiceHandler_Unregister_def ServiceHandler_Heartbeat_def
  ServiceHandler_Search_def GetByID_def Create_def Update_def Delete_def ShouldBindJSON_def

lemma serve_keeps_ID_and_Status:
  assumes "\<And>k s. r k = Some s \<Longrightarrow> ID s = k \<and> Status s = StatusHealthy"
    and "snd (serve ToLower r req) k = Some s"
  shows "ID s = k \<and> Status s = StatusHealthy"
proof (cases req)
  case (POST_register uuid now1 now2 body)
  with assms show ?thesis
    by (auto simp: handler_defs Let_def split: sum.splits json_body.splits if_splits)
next
  case (PUT_update i body)
  with assms show ?thesis
    by (auto simp: handler_defs Let_def merge_update_frame split: sum.splits json_body.splits if_splits option.splits)
next
  case (DELETE_unregister i)
  with assms show ?thesis
    by (auto simp: handler_defs Let_def split: sum.splits if_splits option.splits)
next
  case (PUT_heartbeat i now)
  with assms show ?thesis
    by (auto simp: handler_defs Let_def split: sum.splits if_splits option.splits)
qed (use assms in \<open>auto simp: handler_defs Let_def split: sum.splits option.splits\<close>)

lemma reachable_ID_and_Status:
  "reachable r \<Longrightarrow> r k = Some s \<Longrightarrow> ID s = k \<and> Status s = StatusHealthy"
proof (induction arbitrary: k s rule: reachable.induct)
  case start
  then show ?case by (simp add: NewMemoryRepository_def)
next
  case (request r ToLower req)
  show ?case
    by (rule serve_keeps_ID_and_Status [OF request.IH request.prems])
qed

lemma serve_keeps_heartbeats:
  assumes "\<And>k s. r k = Some s \<Longrightarrow> LastHeartbeat s \<le> t"
    and "sorted (t # clock_readings req)"
    and "snd (serve ToLower r req) k = Some s"
  shows "LastHeartbeat s \<le> last (t # clock_readings req)"
proof (cases req)
  case (POST_register uuid now1 now2 body)
  with assms(2,3) assms(1) [of k s] show ?thesis
    by (auto simp: handler_defs Let_def split: sum.splits json_body.splits if_splits)
next
  case (PUT_update i body)
  with assms(2,3) assms(1) [of k s] assms(1) [of i] show ?thesis
    by (auto simp: handler_defs Let_def merge_update_frame split: sum.splits json_body.splits if_splits option.splits)
next
  case (DELETE_unregister i)
  with assms(2,3) assms(1) [of k s] show ?thesis
    by (auto simp: handler_defs Let_def split: sum.splits if_splits option.splits)
next
  case (PUT_heartbeat i now)
  with assms(2,3) assms(1) [of k s] show ?thesis
    by (auto simp: handler_defs Let_def split: sum.splits if_splits option.splits)
qed (use assms in \<open>auto simp: handler_defs Let_def split: sum.splits option.splits\<close>)

lemma reachable_at_heartbeats:
  "reachable_at t r \<Longrightarrow> r k = Some s \<Longrightarrow> LastHeartbeat s \<le> t"
proof (induction arbitrary: k s rule: reachable_at.induct)
  case (start t)
  then show ?case by (simp add: NewMemoryRepository_def)
next
  case (request t r req ToLower)
  show ?case
    by (rule serve_keeps_heartbeats [OF request.IH request.hyps(2) request.prems])
qed

lemma reachable_at_reachable: "reachable_at t r \<Longrightarrow> reachable r"
  by (induction rule: reachable_at.induct) (auto intro: reachable.intros)


text \<open>The store after the registration of \<^verbatim>\<open>TestServiceLifecycle\<close> is reachable.\<close>

lemma Register_lifecycle:
  "ServiceHandler_Register NewMemoryRepository uuid now1 now2 (Decoded lifecycle_service)
     = ((StatusCreated, ServiceJSON (lifecycle_registered uuid now1 now2)),
        [uuid \<mapsto> lifecycle_registered uuid now1 now2])"
  by (simp add: handler_defs validate_RegisterServiceRequest_def lifecycle_service_def
        lifecycle_registered_def NewMemoryRepository_def StatusHealthy_def Let_def)

lemma reachable_lifecycle: "reachable [uuid \<mapsto> lifecycle_registered uuid now1 now2]"
  using reachable.request [OF reachable.start,
      of id "POST_register uuid now1 now2 (Decoded lifecycle_service)"]
  by (simp add: Register_lifecycle)

lemma reachable_at_lifecycle:
  "now0 \<le> now1 \<Longrightarrow> now1 \<le> now2 \<Longrightarrow> reachable_at now2 [uuid \<mapsto> lifecycle_registered uuid now1 now2]"
  using reachable_at.request [OF reachable_at.start,
      of now0 "POST_register uuid now1 now2 (Decoded lifecycle_service)" id]
  by (simp add: Register_lifecycle)

section \<open>Register\<close>

lemma bind_register_valid:
  "ShouldBindJSON validate_RegisterServiceRequest (Decoded req) = Inr req
     \<longleftrightarrow> reg_Name req \<noteq> '''' \<and> reg_Host req \<noteq> '''' \<and> 1 \<le> reg_Port req \<and> reg_Port req \<le> 65535"
  by (auto simp: ShouldBindJSON_def validate_RegisterServiceRequest_def)

text \<open>
  C1, as the code has it. A request with a non-empty name, a non-empty host and a port
  in [1, 65535] is bound. When the identifier drawn is not a key of the store,
  \<^verbatim>\<open>Register\<close> answers 201 with the record it stores under that identifier: the
  protocol and the health check of the request, or \<^verbatim>\<open>http\<close> and \<^verbatim>\<open>/health\<close> when
  they are empty, status healthy, \<^verbatim>\<open>LastHeartbeat\<close> the first reading of the clock
  and \<^verbatim>\<open>RegisteredAt\<close> the second. When the identifier is a key already, it answers
  500 and the store is as it was.
\<close>

theorem register_creates_record:
  "reg_Name req \<noteq> '''' \<and> reg_Host req \<noteq> '''' \<and> 1 \<le> reg_Port req \<and> reg_Port req \<le> 65535
   \<longrightarrow>
   (let svc = \<lparr>ID = uuid, Name = reg_Name req, Host = reg_Host req, Port = reg_Port req,
                Protocol = (if reg_Protocol req = '''' then ''http'' else reg_Protocol req),
                BasePath = reg_BasePath req, Routes = reg_Routes req,
                HealthCheck = (if reg_HealthCheck req = '''' then ''/health'' else reg_HealthCheck req),
                Tags = reg_Tags req, Metadata = reg_Metadata req,
                Status = StatusHealthy, LastHeartbeat = now1, RegisteredAt = now2\<rparr>
    in (uuid \<notin> dom r \<longrightarrow>
          ServiceHandler_Register r uuid now1 now2 (Decoded req)
            = ((StatusCreated, ServiceJSON svc), r(uuid \<mapsto> svc)))
     \<and> (uuid \<in> dom r \<longrightarrow>
          ServiceHandler_Register r uuid now1 now2 (Decoded req)
            = ((StatusInternalServerError, ErrorJSON ''service already exists''), r)))"
proof (intro impI)
  assume valid: "reg_Name req \<noteq> '''' \<and> reg_Host req \<noteq> '''' \<and> 1 \<le> reg_Port req \<and> reg_Port req \<le> 65535"
  then have bound: "ShouldBindJSON validate_RegisterServiceRequest (Decoded req) = Inr req"
    by (simp add: bind_register_valid)
  show "let svc = \<lparr>ID = uuid, Name = reg_Name req, Host = reg_Host req, Port = reg_Port req,
                Protocol = (if reg_Protocol req = '''' then ''http'' else reg_Protocol req),
                BasePath = reg_BasePath req, Routes = reg_Routes req,
                HealthCheck = (if reg_HealthCheck req = '''' then ''/health'' else reg_HealthCheck req),
                Tags = reg_Tags req, Metadata = reg_Metadata req,
                Status = StatusHealthy, LastHeartbeat = now1, RegisteredAt = now2\<rparr>
    in (uuid \<notin> dom r \<longrightarrow>
          ServiceHandler_Register r uuid now1 now2 (Decoded req)
            = ((StatusCreated, ServiceJSON svc), r(uuid \<mapsto> svc)))
     \<and> (uuid \<in> dom r \<longrightarrow>
          ServiceHandler_Register r uuid now1 now2 (Decoded req)
            = ((StatusInternalServerError, ErrorJSON ''service already exists''), r))"
    by (auto simp: ServiceHandler_Register_def bound Let_def Create_def)
qed

theorem register_creates_record_witness:
  "ServiceHandler_Register NewMemoryRepository ''id-1'' 5 5 (Decoded lifecycle_service)
     = ((StatusCreated, ServiceJSON (lifecycle_registered ''id-1'' 5 5)),
        [''id-1'' \<mapsto> lifecycle_registered ''id-1'' 5 5])
   \<and> ServiceHandler_Register [''id-1'' \<mapsto> lifecycle_registered ''id-1'' 5 5] ''id-1'' 7 8
        (Decoded lifecycle_service)
     = ((StatusInternalServerError, ErrorJSON ''service already exists''),
        [''id-1'' \<mapsto> lifecycle_registered ''id-1'' 5 5])"
  using register_creates_record [of lifecycle_service "''id-1''" 5 5 NewMemoryRepository]
    register_creates_record [of lifecycle_service "''id-1''" 7 8
      "[''id-1'' \<mapsto> lifecycle_registered ''id-1'' 5 5]"]
  by (simp add: lifecycle_service_def lifecycle_registered_def NewMemoryRepository_def
        StatusHealthy_def Let_def)

text \<open>
  The two readings of the clock need not agree: read at 5 and then at 6, the record
  created has \<^verbatim>\<open>LastHeartbeat\<close> 5 and \<^verbatim>\<open>RegisteredAt\<close> 6.
\<close>

theorem register_two_clock_readings:
  "ServiceHandler_Register NewMemoryRepository ''id-1'' 5 6 (Decoded lifecycle_service)
     = ((StatusCreated, ServiceJSON (lifecycle_registered ''id-1'' 5 6)),
        [''id-1'' \<mapsto> lifecycle_registered ''id-1'' 5 6])
   \<and> LastHeartbeat (lifecycle_registered ''id-1'' 5 6) = 5
   \<and> RegisteredAt (lifecycle_registered ''id-1'' 5 6) = 6
   \<and> LastHeartbeat (lifecycle_registered ''id-1'' 5 6) \<noteq> RegisteredAt (lifecycle_registered ''id-1'' 5 6)"
  by (simp add: Register_lifecycle) (simp add: lifecycle_registered_def)

text \<open>
  C2. A request with an empty name, an empty host or a port outside [1, 65535] is
  answered 400 and the store is as it was; so is a body that does not decode.
\<close>

theorem register_invalid_rejected:
  "(reg_Name req = '''' \<or> reg_Host req = '''' \<or> reg_Port req < 1 \<or> 65535 < reg_Port req
     \<longrightarrow> ServiceHandler_Register r uuid now1 now2 (Decoded req)
           = ((StatusBadRequest, BindErrorJSON ValidationFailed), r))
   \<and> ServiceHandler_Register r uuid now1 now2 Undecodable
           = ((StatusBadRequest, BindErrorJSON DecodeFailed), r)"
  by (auto simp: ServiceHandler_Register_def ShouldBindJSON_def validate_RegisterServiceRequest_def)

theorem register_invalid_rejected_witness:
  "ServiceHandler_Register [''id-1'' \<mapsto> lifecycle_registered ''id-1'' 5 6] ''id-2'' 7 8
       (Decoded (lifecycle_service\<lparr>reg_Port := 0\<rparr>))
     = ((StatusBadRequest, BindErrorJSON ValidationFailed), [''id-1'' \<mapsto> lifecycle_registered ''id-1'' 5 6])
   \<and> ServiceHandler_Register [''id-1'' \<mapsto> lifecycle_registered ''id-1'' 5 6] ''id-2'' 7 8
       (Decoded (lifecycle_service\<lparr>reg_Port := 65536\<rparr>))
     = ((StatusBadRequest, BindErrorJSON ValidationFailed), [''id-1'' \<mapsto> lifecycle_registered ''id-1'' 5 6])
   \<and> ServiceHandler_Register [''id-1'' \<mapsto> lifecycle_registered ''id-1'' 5 6] ''id-2'' 7 8
       (Decoded (lifecycle_service\<lparr>reg_Name := ''''\<rparr>))
     = ((StatusBadRequest, BindErrorJSON ValidationFailed), [''id-1'' \<mapsto> lifecycle_registered ''id-1'' 5 6])
   \<and> ServiceHandler_Register [''id-1'' \<mapsto> lifecycle_registered ''id-1'' 5 6] ''id-2'' 7 8
       (Decoded (lifecycle_service\<lparr>reg_Host := ''''\<rparr>))
     = ((StatusBadRequest, BindErrorJSON ValidationFailed), [''id-1'' \<mapsto> lifecycle_registered ''id-1'' 5 6])"
proof -
  let ?r = "[''id-1'' \<mapsto> lifecycle_registered ''id-1'' 5 6]"
  have "reg_Port (lifecycle_service\<lparr>reg_Port := 0\<rparr>) < 1"
    and "65535 < reg_Port (lifecycle_service\<lparr>reg_Port := 65536\<rparr>)"
    and "reg_Name (lifecycle_service\<lparr>reg_Name := ''''\<rparr>) = ''''"
    and "reg_Host (lifecycle_service\<lparr>reg_Host := ''''\<rparr>) = ''''"
    by simp_all
  then show ?thesis
    using register_invalid_rejected [of "lifecycle_service\<lparr>reg_Port := 0\<rparr>" ?r "''id-2''" 7 8]
      register_invalid_rejected [of "lifecycle_service\<lparr>reg_Port := 65536\<rparr>" ?r "''id-2''" 7 8]
      register_invalid_rejected [of "lifecycle_service\<lparr>reg_Name := ''''\<rparr>" ?r "''id-2''" 7 8]
      register_invalid_rejected [of "lifecycle_service\<lparr>reg_Host := ''''\<rparr>" ?r "''id-2''" 7 8]
    by blast
qed

section \<open>Update\<close>

text \<open>
  C3, as the code has it. In a reachable store, an \<^verbatim>\<open>Update\<close> of a stored record
  whose body binds (the port is 0 or in [1, 65535]) answers 200 and stores the record
  in which each of host, port, protocol, base path, routes, health check, tags and
  metadata is the value of the request when that is not the zero value, and the value
  stored before otherwise; so a field that was not zero is not zero afterwards. A body
  whose port is not 0 and outside [1, 65535], or that does not decode, is answered 400
  and the store is as it was. An id that is not in the store is answered 404.
\<close>

theorem update_merges_fields:
  "(reachable r \<and> r i = Some s \<and> (upd_Port req = 0 \<or> 1 \<le> upd_Port req \<and> upd_Port req \<le> 65535)
     \<longrightarrow> (\<exists>s'. ServiceHandler_Update r i (Decoded req) = ((StatusOK, ServiceJSON s'), r(i \<mapsto> s'))
           \<and> Host s' = (if upd_Host req = '''' then Host s else upd_Host req)
           \<and> Port s' = (if upd_Port req = 0 then Port s else upd_Port req)
           \<and> Protocol s' = (if upd_Protocol req = '''' then Protocol s else upd_Protocol req)
           \<and> BasePath s' = (if upd_BasePath req = '''' then BasePath s else upd_BasePath req)
           \<and> Routes s' = (if upd_Routes req = None then Routes s else upd_Routes req)
           \<and> HealthCheck s' = (if upd_HealthCheck req = '''' then HealthCheck s else upd_HealthCheck req)
           \<and> Tags s' = (if upd_Tags req = None then Tags s else upd_Tags req)
           \<and> Metadata s' = (if upd_Metadata req = None then Metadata s else upd_Metadata req)
           \<and> (Host s' = '''' \<longrightarrow> Host s = '''') \<and> (Port s' = 0 \<longrightarrow> Port s = 0)
           \<and> (Protocol s' = '''' \<longrightarrow> Protocol s = '''') \<and> (BasePath s' = '''' \<longrightarrow> BasePath s = '''')
           \<and> (Routes s' = None \<longrightarrow> Routes s = None) \<and> (HealthCheck s' = '''' \<longrightarrow> HealthCheck s = '''')
           \<and> (Tags s' = None \<longrightarrow> Tags s = None) \<and> (Metadata s' = None \<longrightarrow> Metadata s = None)))
   \<and> (r i = Some s \<and> upd_Port req \<noteq> 0 \<and> (upd_Port req < 1 \<or> 65535 < upd_Port req)
     \<longrightarrow> ServiceHandler_Update r i (Decoded req) = ((StatusBadRequest, BindErrorJSON ValidationFailed), r))
   \<and> (r i = Some s
     \<longrightarrow> ServiceHandler_Update r i Undecodable = ((StatusBadRequest, BindErrorJSON DecodeFailed), r))
   \<and> (r i = None
     \<longrightarrow> ServiceHandler_Update r i body = ((StatusNotFound, ErrorJSON ''service not found''), r))"
proof (intro conjI impI)
  assume a: "reachable r \<and> r i = Some s \<and> (upd_Port req = 0 \<or> 1 \<le> upd_Port req \<and> upd_Port req \<le> 65535)"
  then have "ID s = i"
    using reachable_ID_and_Status by blast
  with a have "ServiceHandler_Update r i (Decoded req)
      = ((StatusOK, ServiceJSON (merge_update s req)), r(i \<mapsto> merge_update s req))"
    by (intro Update_handler_bound) (simp_all add: validate_UpdateServiceRequest_def)
  then show "\<exists>s'. ServiceHandler_Update r i (Decoded req) = ((StatusOK, ServiceJSON s'), r(i \<mapsto> s'))
           \<and> Host s' = (if upd_Host req = '''' then Host s else upd_Host req)
           \<and> Port s' = (if upd_Port req = 0 then Port s else upd_Port req)
           \<and> Protocol s' = (if upd_Protocol req = '''' then Protocol s else upd_Protocol req)
           \<and> BasePath s' = (if upd_BasePath req = '''' then BasePath s else upd_BasePath req)
           \<and> Routes s' = (if upd_Routes req = None then Routes s else upd_Routes req)
           \<and> HealthCheck s' = (if upd_HealthCheck req = '''' then HealthCheck s else upd_HealthCheck req)
           \<and> Tags s' = (if upd_Tags req = None then Tags s else upd_Tags req)
           \<and> Metadata s' = (if upd_Metadata req = None then Metadata s else upd_Metadata req)
           \<and> (Host s' = '''' \<longrightarrow> Host s = '''') \<and> (Port s' = 0 \<longrightarrow> Port s = 0)
           \<and> (Protocol s' = '''' \<longrightarrow> Protocol s = '''') \<and> (BasePath s' = '''' \<longrightarrow> BasePath s = '''')
           \<and> (Routes s' = None \<longrightarrow> Routes s = None) \<and> (HealthCheck s' = '''' \<longrightarrow> HealthCheck s = '''')
           \<and> (Tags s' = None \<longrightarrow> Tags s = None) \<and> (Metadata s' = None \<longrightarrow> Metadata s = None)"
    by (intro exI [of _ "merge_update s req"]) (auto simp: merge_update_fields)
next
  assume "r i = Some s \<and> upd_Port req \<noteq> 0 \<and> (upd_Port req < 1 \<or> 65535 < upd_Port req)"
  then show "ServiceHandler_Update r i (Decoded req) = ((StatusBadRequest, BindErrorJSON ValidationFailed), r)"
    by (intro Update_handler_unbound [of r i s])
       (auto simp: ShouldBindJSON_def validate_UpdateServiceRequest_def)
next
  assume "r i = Some s"
  then show "ServiceHandler_Update r i Undecodable = ((StatusBadRequest, BindErrorJSON DecodeFailed), r)"
    by (intro Update_handler_unbound [of r i s]) (auto simp: ShouldBindJSON_def)
next
  assume "r i = None"
  then show "ServiceHandler_Update r i body = ((StatusNotFound, ErrorJSON ''service not found''), r)"
    by (rule Update_handler_absent)
qed

theorem update_merges_fields_witness:
  "ServiceHandler_Update [''id-1'' \<mapsto> lifecycle_registered ''id-1'' 5 6] ''id-1'' (Decoded lifecycle_update)
     = ((StatusOK, ServiceJSON ((lifecycle_registered ''id-1'' 5 6)\<lparr>Port := 5000\<rparr>)),
        [''id-1'' \<mapsto> (lifecycle_registered ''id-1'' 5 6)\<lparr>Port := 5000\<rparr>])
   \<and> ServiceHandler_Update [''id-1'' \<mapsto> lifecycle_registered ''id-1'' 5 6] ''id-1''
        (Decoded (lifecycle_update\<lparr>upd_Port := - 1\<rparr>))
     = ((StatusBadRequest, BindErrorJSON ValidationFailed), [''id-1'' \<mapsto> lifecycle_registered ''id-1'' 5 6])
   \<and> ServiceHandler_Update [''id-1'' \<mapsto> lifecycle_registered ''id-1'' 5 6] ''id-1'' Undecodable
     = ((StatusBadRequest, BindErrorJSON DecodeFailed), [''id-1'' \<mapsto> lifecycle_registered ''id-1'' 5 6])
   \<and> ServiceHandler_Update [''id-1'' \<mapsto> lifecycle_registered ''id-1'' 5 6] ''id-2'' (Decoded lifecycle_update)
     = ((StatusNotFound, ErrorJSON ''service not found''), [''id-1'' \<mapsto> lifecycle_registered ''id-1'' 5 6])"
proof -
  let ?s = "lifecycle_registered ''id-1'' 5 6"
  let ?r = "[''id-1'' \<mapsto> ?s]"
  have reach: "reachable ?r"
    by (rule reachable_lifecycle)
  have stored: "?r ''id-1'' = Some ?s" and absent: "?r ''id-2'' = None"
    by simp_all
  have ok: "upd_Port lifecycle_update = 0 \<or> 1 \<le> upd_Port lifecycle_update \<and> upd_Port lifecycle_update \<le> 65535"
    by (simp add: lifecycle_update_def)
  have bad: "upd_Port (lifecycle_update\<lparr>upd_Port := - 1\<rparr>) \<noteq> 0
      \<and> (upd_Port (lifecycle_update\<lparr>upd_Port := - 1\<rparr>) < 1 \<or> 65535 < upd_Port (lifecycle_update\<lparr>upd_Port := - 1\<rparr>))"
    by simp
  from update_merges_fields [of ?r "''id-1''" ?s lifecycle_update] reach stored ok
  obtain s' where upd: "ServiceHandler_Update ?r ''id-1'' (Decoded lifecycle_update)
        = ((StatusOK, ServiceJSON s'), ?r(''id-1'' \<mapsto> s'))"
    and fields: "Host s' = (if upd_Host lifecycle_update = '''' then Host ?s else upd_Host lifecycle_update)"
      "Port s' = (if upd_Port lifecycle_update = 0 then Port ?s else upd_Port lifecycle_update)"
    by blast
  have "s' = ?s\<lparr>Port := 5000\<rparr>"
    using upd by (simp add: handler_defs validate_UpdateServiceRequest_def lifecycle_update_def
        merge_update_def Let_def lifecycle_registered_def)
  with upd have first: "ServiceHandler_Update ?r ''id-1'' (Decoded lifecycle_update)
     = ((StatusOK, ServiceJSON (?s\<lparr>Port := 5000\<rparr>)), [''id-1'' \<mapsto> ?s\<lparr>Port := 5000\<rparr>])"
    by simp
  from update_merges_fields [of ?r "''id-1''" ?s "lifecycle_update\<lparr>upd_Port := - 1\<rparr>"] stored bad
  have second: "ServiceHandler_Update ?r ''id-1'' (Decoded (lifecycle_update\<lparr>upd_Port := - 1\<rparr>))
     = ((StatusBadRequest, BindErrorJSON ValidationFailed), ?r)"
    by blast
  from update_merges_fields [of ?r "''id-1''" ?s] stored
  have third: "ServiceHandler_Update ?r ''id-1'' Undecodable
     = ((StatusBadRequest, BindErrorJSON DecodeFailed), ?r)"
    by blast
  from update_merges_fields [of ?r "''id-2''" _ _ "Decoded lifecycle_update"] absent
  have fourth: "ServiceHandler_Update ?r ''id-2'' (Decoded lifecycle_update)
     = ((StatusNotFound, ErrorJSON ''service not found''), ?r)"
    by blast
  from first second third fourth show ?thesis
    by blast
qed

text \<open>
  A request with port 70000 on a stored record with port 4000: the port of the request
  is not zero, and the record stored afterwards does not have it.
\<close>

theorem update_rejects_port_out_of_range:
  "ServiceHandler_Update [''id-1'' \<mapsto> lifecycle_registered ''id-1'' 5 6] ''id-1''
        (Decoded (lifecycle_update\<lparr>upd_Port := 70000\<rparr>))
     = ((StatusBadRequest, BindErrorJSON ValidationFailed), [''id-1'' \<mapsto> lifecycle_registered ''id-1'' 5 6])
   \<and> upd_Port (lifecycle_update\<lparr>upd_Port := 70000\<rparr>) = 70000
   \<and> Port (lifecycle_registered ''id-1'' 5 6) = 4000"
  by (simp add: handler_defs validate_UpdateServiceRequest_def lifecycle_update_def
        lifecycle_registered_def)

text \<open>
  C4. When \<^verbatim>\<open>Update\<close> on the id of a stored record answers 200, the record stored
  under that id afterwards has the id, the name, the status, \<^verbatim>\<open>LastHeartbeat\<close> and
  \<^verbatim>\<open>RegisteredAt\<close> of the record stored before, whatever the request holds.
\<close>

theorem update_keeps_identity:
  "r i = Some s \<Longrightarrow> ServiceHandler_Update r i body = ((StatusOK, out), r') \<Longrightarrow>
   \<exists>s'. r' i = Some s' \<and> out = ServiceJSON s'
      \<and> ID s' = ID s \<and> Name s' = Name s \<and> Status s' = Status s
      \<and> LastHeartbeat s' = LastHeartbeat s \<and> RegisteredAt s' = RegisteredAt s"
proof -
  assume "r i = Some s" and "ServiceHandler_Update r i body = ((StatusOK, out), r')"
  then obtain req where "out = ServiceJSON (merge_update s req)"
    and "r' i = Some (merge_update s req)"
    using Update_handler_stored by blast
  then show ?thesis
    by (simp add: merge_update_frame)
qed

theorem update_keeps_identity_witness:
  "ServiceHandler_Update [''id-1'' \<mapsto> lifecycle_registered ''id-1'' 5 6] ''id-1''
       (Decoded (lifecycle_update\<lparr>upd_Host := ''10.0.0.7''\<rparr>))
     = ((StatusOK, ServiceJSON ((lifecycle_registered ''id-1'' 5 6)\<lparr>Host := ''10.0.0.7'', Port := 5000\<rparr>)),
        [''id-1'' \<mapsto> (lifecycle_registered ''id-1'' 5 6)\<lparr>Host := ''10.0.0.7'', Port := 5000\<rparr>])
   \<and> (\<exists>s'. [''id-1'' \<mapsto> (lifecycle_registered ''id-1'' 5 6)\<lparr>Host := ''10.0.0.7'', Port := 5000\<rparr>] ''id-1'' = Some s'
          \<and> ID s' = ''id-1'' \<and> Name s' = ''lifecycle-service'' \<and> Status s' = StatusHealthy
          \<and> LastHeartbeat s' = 5 \<and> RegisteredAt s' = 6)"
proof -
  let ?s = "lifecycle_registered ''id-1'' 5 6"
  let ?s' = "?s\<lparr>Host := ''10.0.0.7'', Port := 5000\<rparr>"
  have run: "ServiceHandler_Update [''id-1'' \<mapsto> ?s] ''id-1'' (Decoded (lifecycle_update\<lparr>upd_Host := ''10.0.0.7''\<rparr>))
      = ((StatusOK, ServiceJSON ?s'), [''id-1'' \<mapsto> ?s'])"
    by (simp add: handler_defs validate_UpdateServiceRequest_def lifecycle_update_def
        merge_update_def Let_def lifecycle_registered_def)
  have stored: "[''id-1'' \<mapsto> ?s] ''id-1'' = Some ?s"
    by simp
  from update_keeps_identity [OF stored run] run show ?thesis
    by (simp add: lifecycle_registered_def StatusHealthy_def)
qed

section \<open>Heartbeat\<close>

lemma Heartbeat_present:
  "r i = Some s \<Longrightarrow> ID s = i \<Longrightarrow>
   ServiceHandler_Heartbeat r i now
     = ((StatusOK, HeartbeatJSON ''heartbeat received'' now),
        r(i \<mapsto> s\<lparr>LastHeartbeat := now, Status := StatusHealthy\<rparr>))"
  by (simp add: ServiceHandler_Heartbeat_def GetByID_def Update_def Let_def)

lemma Heartbeat_absent:
  "r i = None \<Longrightarrow>
   ServiceHandler_Heartbeat r i now = ((StatusNotFound, ErrorJSON ''service not found''), r)"
  by (simp add: ServiceHandler_Heartbeat_def GetByID_def)

text \<open>
  C5. \<^verbatim>\<open>Heartbeat\<close> on the id of a stored record (stored under its own id, as every
  record of a reachable store is) answers 200 with the instant read, and stores the
  record with \<^verbatim>\<open>LastHeartbeat\<close> that instant and status healthy, whatever the status
  was, every other field and every other record as before. In a store reached with a
  clock that never goes back, the instant read is not before the \<^verbatim>\<open>LastHeartbeat\<close>
  stored. On an id that is not in the store it answers 404 and the store is as it was.
\<close>

theorem heartbeat_refreshes:
  "(r i = Some s \<and> ID s = i
     \<longrightarrow> ServiceHandler_Heartbeat r i now
           = ((StatusOK, HeartbeatJSON ''heartbeat received'' now),
              r(i \<mapsto> s\<lparr>LastHeartbeat := now, Status := StatusHealthy\<rparr>)))
   \<and> (reachable_at t r \<and> t \<le> now \<and> r i = Some s \<longrightarrow> ID s = i \<and> LastHeartbeat s \<le> now)
   \<and> (r i = None
     \<longrightarrow> ServiceHandler_Heartbeat r i now = ((StatusNotFound, ErrorJSON ''service not found''), r))"
proof (intro conjI impI)
  assume "r i = Some s \<and> ID s = i"
  then show "ServiceHandler_Heartbeat r i now
      = ((StatusOK, HeartbeatJSON ''heartbeat received'' now),
         r(i \<mapsto> s\<lparr>LastHeartbeat := now, Status := StatusHealthy\<rparr>))"
    by (simp add: Heartbeat_present)
next
  assume a: "reachable_at t r \<and> t \<le> now \<and> r i = Some s"
  then have "reachable r"
    using reachable_at_reachable by blast
  with a show "ID s = i"
    using reachable_ID_and_Status by blast
  from a have "LastHeartbeat s \<le> t"
    using reachable_at_heartbeats by blast
  with a show "LastHeartbeat s \<le> now"
    by simp
next
  assume "r i = None"
  then show "ServiceHandler_Heartbeat r i now = ((StatusNotFound, ErrorJSON ''service not found''), r)"
    by (rule Heartbeat_absent)
qed

theorem heartbeat_refreshes_witness:
  "ServiceHandler_Heartbeat
       [''id-1'' \<mapsto> (lifecycle_registered ''id-1'' 5 6)\<lparr>Status := StatusUnhealthy\<rparr>] ''id-1'' 9
     = ((StatusOK, HeartbeatJSON ''heartbeat received'' 9),
        [''id-1'' \<mapsto> lifecycle_registered ''id-1'' 9 6])
   \<and> reachable_at 6 [''id-1'' \<mapsto> lifecycle_registered ''id-1'' 5 6]
   \<and> LastHeartbeat (lifecycle_registered ''id-1'' 5 6) \<le> 9
   \<and> ServiceHandler_Heartbeat [''id-1'' \<mapsto> lifecycle_registered ''id-1'' 5 6] ''id-2'' 9
     = ((StatusNotFound, ErrorJSON ''service not found''), [''id-1'' \<mapsto> lifecycle_registered ''id-1'' 5 6])"
proof -
  let ?s = "lifecycle_registered ''id-1'' 5 6"
  let ?u = "?s\<lparr>Status := StatusUnhealthy\<rparr>"
  have "[''id-1'' \<mapsto> ?u] ''id-1'' = Some ?u \<and> ID ?u = ''id-1''"
    by (simp add: lifecycle_registered_def)
  with heartbeat_refreshes [of "[''id-1'' \<mapsto> ?u]" "''id-1''" ?u 9]
  have "ServiceHandler_Heartbeat [''id-1'' \<mapsto> ?u] ''id-1'' 9
      = ((StatusOK, HeartbeatJSON ''heartbeat received'' 9),
         [''id-1'' \<mapsto> ?u\<lparr>LastHeartbeat := 9, Status := StatusHealthy\<rparr>])"
    by simp
  moreover have "?u\<lparr>LastHeartbeat := 9, Status := StatusHealthy\<rparr> = lifecycle_registered ''id-1'' 9 6"
    by (simp add: lifecycle_registered_def StatusHealthy_def)
  ultimately have first: "ServiceHandler_Heartbeat [''id-1'' \<mapsto> ?u] ''id-1'' 9
      = ((StatusOK, HeartbeatJSON ''heartbeat received'' 9), [''id-1'' \<mapsto> lifecycle_registered ''id-1'' 9 6])"
    by simp
  have reach: "reachable_at 6 [''id-1'' \<mapsto> ?s]"
    by (rule reachable_at_lifecycle [of 5]) simp_all
  have "[''id-1'' \<mapsto> ?s] ''id-1'' = Some ?s"
    by simp
  with heartbeat_refreshes [of "[''id-1'' \<mapsto> ?s]" "''id-1''" ?s 9 6] reach
  have second: "LastHeartbeat ?s \<le> 9"
    by simp
  have "[''id-1'' \<mapsto> ?s] ''id-2'' = None"
    by simp
  with heartbeat_refreshes [of "[''id-1'' \<mapsto> ?s]" "''id-2''" _ 9]
  have third: "ServiceHandler_Heartbeat [''id-1'' \<mapsto> ?s] ''id-2'' 9
      = ((StatusNotFound, ErrorJSON ''service not found''), [''id-1'' \<mapsto> ?s])"
    by blast
  from first reach second third show ?thesis
    by blast
qed

section \<open>Status\<close>

text \<open>
  C9. Every record of a store reached from the empty repository by requests to the
  seven routes has status healthy.
\<close>

theorem stored_status_healthy:
  "reachable r \<Longrightarrow> r i = Some s \<Longrightarrow> Status s = StatusHealthy"
  using reachable_ID_and_Status by blast

theorem stored_status_healthy_witness:
  "reachable (snd (serve id (snd (serve id NewMemoryRepository
        (POST_register ''id-1'' 5 6 (Decoded lifecycle_service))))
        (PUT_update ''id-1'' (Decoded lifecycle_update))))
   \<and> snd (serve id (snd (serve id NewMemoryRepository
        (POST_register ''id-1'' 5 6 (Decoded lifecycle_service))))
        (PUT_update ''id-1'' (Decoded lifecycle_update))) ''id-1''
      = Some ((lifecycle_registered ''id-1'' 5 6)\<lparr>Port := 5000\<rparr>)
   \<and> Status ((lifecycle_registered ''id-1'' 5 6)\<lparr>Port := 5000\<rparr>) = StatusHealthy"
proof -
  let ?r1 = "snd (serve id NewMemoryRepository (POST_register ''id-1'' 5 6 (Decoded lifecycle_service)))"
  let ?r2 = "snd (serve id ?r1 (PUT_update ''id-1'' (Decoded lifecycle_update)))"
  have reach: "reachable ?r2"
    by (intro reachable.intros)
  have r1: "?r1 = [''id-1'' \<mapsto> lifecycle_registered ''id-1'' 5 6]"
    by (simp add: Register_lifecycle)
  have stored: "?r2 ''id-1'' = Some ((lifecycle_registered ''id-1'' 5 6)\<lparr>Port := 5000\<rparr>)"
    unfolding r1
    by (simp add: handler_defs validate_UpdateServiceRequest_def lifecycle_update_def
        merge_update_def Let_def lifecycle_registered_def)
  from stored_status_healthy [OF reach stored] reach stored show ?thesis
    by blast
qed

section \<open>Update of an unknown id\<close>

text \<open>
  C10. \<^verbatim>\<open>Update\<close> on an id that is not in the store answers 404 whatever the body
  is, also a body that does not decode or does not validate: the id is looked up
  before the body is read.
\<close>

theorem update_unknown_id_not_found:
  "r i = None \<Longrightarrow>
   ServiceHandler_Update r i body = ((StatusNotFound, ErrorJSON ''service not found''), r)"
  by (rule Update_handler_absent)

theorem update_unknown_id_not_found_witness:
  "ServiceHandler_Update [''id-1'' \<mapsto> lifecycle_registered ''id-1'' 5 6] ''id-2'' Undecodable
     = ((StatusNotFound, ErrorJSON ''service not found''), [''id-1'' \<mapsto> lifecycle_registered ''id-1'' 5 6])
   \<and> ServiceHandler_Update [''id-1'' \<mapsto> lifecycle_registered ''id-1'' 5 6] ''id-2''
        (Decoded (lifecycle_update\<lparr>upd_Port := 70000\<rparr>))
     = ((StatusNotFound, ErrorJSON ''service not found''), [''id-1'' \<mapsto> lifecycle_registered ''id-1'' 5 6])
   \<and> ShouldBindJSON validate_UpdateServiceRequest (Undecodable :: UpdateServiceRequest json_body)
     = Inl DecodeFailed
   \<and> ShouldBindJSON validate_UpdateServiceRequest (Decoded (lifecycle_update\<lparr>upd_Port := 70000\<rparr>))
     = Inl ValidationFailed"
proof -
  have absent: "[''id-1'' \<mapsto> lifecycle_registered ''id-1'' 5 6] ''id-2'' = None"
    by simp
  have "ShouldBindJSON validate_UpdateServiceRequest (Undecodable :: UpdateServiceRequest json_body)
      = Inl DecodeFailed"
    and "ShouldBindJSON validate_UpdateServiceRequest (Decoded (lifecycle_update\<lparr>upd_Port := 70000\<rparr>))
      = Inl ValidationFailed"
    by (simp_all add: ShouldBindJSON_def validate_UpdateServiceRequest_def)
  with absent
    update_unknown_id_not_found [of "[''id-1'' \<mapsto> lifecycle_registered ''id-1'' 5 6]" "''id-2''" Undecodable]
    update_unknown_id_not_found [of "[''id-1'' \<mapsto> lifecycle_registered ''id-1'' 5 6]" "''id-2''"
      "Decoded (lifecycle_update\<lparr>upd_Port := 70000\<rparr>)"]
  show ?thesis
    by blast
qed

section \<open>The client: retries and errors\<close>

lemma doRequest_from_answered:
  assumes "int j \<le> retries opts" and "\<forall>k. m \<le> k \<and> k < j \<longrightarrow> isl (Do k)" and "Do j = Inr resp"
    and "m \<le> j"
  shows "doRequest_from opts None Do (int m) lastErr trace
           = ((Some resp, None), trace @ retry_trace (j - m) (retryDelay opts))"
  using assms(2,4)
proof (induction "j - m" arbitrary: m lastErr trace)
  case 0
  then have "m = j" by simp
  with assms(1,3) show ?case
    by (simp add: doRequest_from.simps [of opts None Do "int j"])
next
  case (Suc n)
  then have less: "m < j" and n: "n = j - Suc m" by simp_all
  with Suc.prems obtain err where err: "Do m = Inl err"
    by (metis isl_def le_refl)
  from less assms(1) have below: "int m < retries opts" by simp
  have rest: "doRequest_from opts None Do (int (Suc m)) (Some err) (trace @ [Called, Slept (retryDelay opts)])
      = ((Some resp, None), (trace @ [Called, Slept (retryDelay opts)]) @ retry_trace (j - Suc m) (retryDelay opts))"
    using Suc.prems less by (intro Suc.hyps(1) n) auto
  have "j - m = Suc (j - Suc m)"
    using less by simp
  with rest err below show ?case
    by (simp add: doRequest_from.simps [of opts None Do "int m"] add.commute)
qed

lemma doRequest_from_exhausted:
  assumes "0 \<le> retries opts" and "\<forall>k. m \<le> k \<and> k \<le> nat (retries opts) \<longrightarrow> isl (Do k)"
    and "m \<le> nat (retries opts)"
  shows "doRequest_from opts None Do (int m) lastErr trace
           = ((None, Some (ErrConnectionFailed (projl (Do (nat (retries opts)))))),
              trace @ retry_trace (nat (retries opts) - m) (retryDelay opts))"
  using assms(2,3)
proof (induction "nat (retries opts) - m" arbitrary: m lastErr trace)
  case 0
  then have m: "int m = retries opts" using assms(1) by simp
  from 0 have "isl (Do m)" by simp
  then obtain err where err: "Do m = Inl err"
    by (auto simp: isl_def)
  from m have "nat (retries opts) = m" by simp
  with m err show ?case
    by (simp add: doRequest_from.simps [of opts None Do "int m"])
next
  case (Suc n)
  then have less: "m < nat (retries opts)" and n: "n = nat (retries opts) - Suc m" by simp_all
  with Suc.prems obtain err where err: "Do m = Inl err"
    by (metis isl_def le_refl)
  from less have below: "int m < retries opts" by simp
  have rest: "doRequest_from opts None Do (int (Suc m)) (Some err) (trace @ [Called, Slept (retryDelay opts)])
      = ((None, Some (ErrConnectionFailed (projl (Do (nat (retries opts)))))),
         (trace @ [Called, Slept (retryDelay opts)]) @ retry_trace (nat (retries opts) - Suc m) (retryDelay opts))"
    using Suc.prems less by (intro Suc.hyps(1) n) auto
  have "nat (retries opts) - m = Suc (nat (retries opts) - Suc m)"
    using less by simp
  with rest err below show ?case
    by (simp add: doRequest_from.simps [of opts None Do "int m"] add.commute)
qed

lemma doRequest_answered:
  "int j \<le> retries opts \<Longrightarrow> \<forall>k<j. isl (Do k) \<Longrightarrow> Do j = Inr resp \<Longrightarrow>
   doRequest opts None Do = ((Some resp, None), retry_trace j (retryDelay opts))"
  using doRequest_from_answered [of j opts 0 Do resp None "[]"]
  by (simp add: doRequest_def)

lemma doRequest_exhausted:
  "0 \<le> retries opts \<Longrightarrow> \<forall>k\<le>nat (retries opts). isl (Do k) \<Longrightarrow>
   doRequest opts None Do
     = ((None, Some (ErrConnectionFailed (projl (Do (nat (retries opts)))))),
        retry_trace (nat (retries opts)) (retryDelay opts))"
  using doRequest_from_exhausted [of opts 0 Do None "[]"]
  by (simp add: doRequest_def)

lemma doRequest_negative_retries:
  "retries opts < 0 \<Longrightarrow> doRequest opts newRequest Do = ((None, None), [])"
  by (simp add: doRequest_def doRequest_from.simps [of opts newRequest Do 0])

lemma doRequest_newRequest_error:
  "0 \<le> retries opts \<Longrightarrow> doRequest opts (Some err) Do = ((None, Some (Err err)), [])"
  by (simp add: doRequest_def doRequest_from.simps [of opts "Some err" Do 0])

lemma client_calls_failed:
  assumes "doRequest opts newRequest Do = ((None, Some err), trace)"
  shows "Client_Register opts newRequest Do = (Inl err, trace)"
    and "Client_Get opts newRequest Do = (Inl err, trace)"
    and "Client_List opts newRequest Do = (Inl err, trace)"
    and "Client_Search opts newRequest Do = (Inl err, trace)"
    and "Client_Update opts newRequest Do = (Inl err, trace)"
    and "Client_Unregister opts newRequest Do = (Some err, trace)"
    and "Client_Heartbeat opts newRequest Do = (Some err, trace)"
  using assms
  by (simp_all add: Client_Register_def Client_Get_def Client_List_def Client_Search_def
        Client_Update_def Client_Unregister_def Client_Heartbeat_def)

lemma client_calls_answered:
  assumes "doRequest opts newRequest Do = ((Some resp, None), trace)"
  shows "Client_Register opts newRequest Do
           = (if StatusCode resp \<noteq> StatusCreated then Inl (parseError resp)
              else case decoded resp of None \<Rightarrow> Inl DecodeError | Some service \<Rightarrow> Inr service, trace)"
    and "Client_Get opts newRequest Do
           = (if StatusCode resp = StatusNotFound then Inl Client_ErrServiceNotFound
              else if StatusCode resp \<noteq> StatusOK then Inl (parseError resp)
              else case decoded resp of None \<Rightarrow> Inl DecodeError | Some service \<Rightarrow> Inr service, trace)"
    and "Client_List opts newRequest Do
           = (if StatusCode resp \<noteq> StatusOK then Inl (parseError resp)
              else case decoded resp of None \<Rightarrow> Inl DecodeError | Some listResp \<Rightarrow> Inr listResp, trace)"
    and "Client_Search opts newRequest Do
           = (if StatusCode resp \<noteq> StatusOK then Inl (parseError resp)
              else case decoded resp of None \<Rightarrow> Inl DecodeError | Some listResp \<Rightarrow> Inr listResp, trace)"
    and "Client_Update opts newRequest Do
           = (if StatusCode resp = StatusNotFound then Inl Client_ErrServiceNotFound
              else if StatusCode resp \<noteq> StatusOK then Inl (parseError resp)
              else case decoded resp of None \<Rightarrow> Inl DecodeError | Some service \<Rightarrow> Inr service, trace)"
    and "Client_Unregister opts newRequest Do
           = (if StatusCode resp = StatusNotFound then Some Client_ErrServiceNotFound
              else if StatusCode resp \<noteq> StatusOK then Some (parseError resp)
              else None, trace)"
    and "Client_Heartbeat opts newRequest Do
           = (if StatusCode resp = StatusNotFound then Some Client_ErrServiceNotFound
              else if StatusCode resp \<noteq> StatusOK then Some (parseError resp)
              else None, trace)"
  using assms
  by (simp_all add: Client_Register_def Client_Get_def Client_List_def Client_Search_def
        Client_Update_def Client_Unregister_def Client_Heartbeat_def split: option.splits)

text \<open>
  C8, as the code has it, for a retry count that is not negative and each of the
  seven calls. When every call of the transport fails, the call makes one attempt more
  than the retry count, sleeps the retry delay after each attempt but the last, and
  returns the error of the last attempt wrapped in \<^verbatim>\<open>ErrConnectionFailed\<close>. When
  attempt number \<open>j\<close>, within the retry count, is the first to be answered, the call
  makes no further attempt, whatever the status: its trace is \<open>j\<close> failed attempts,
  each with its delay, and the answered one. A status outside 200..299 becomes an
  error at once: \<^verbatim>\<open>ErrServiceNotFound\<close> for 404 in \<^verbatim>\<open>Get\<close>, \<^verbatim>\<open>Update\<close>,
  \<^verbatim>\<open>Unregister\<close> and \<^verbatim>\<open>Heartbeat\<close>, and otherwise, also for 404 in
  \<^verbatim>\<open>Register\<close>, \<^verbatim>\<open>List\<close> and \<^verbatim>\<open>Search\<close>, the message of the server when the
  body carries one and the unexpected status if not. The status of success, 201 for
  \<^verbatim>\<open>Register\<close> and 200 for the other calls, with a body that decodes where the call
  returns data, gives the result and no error; two failures and then such an answer
  is the case \<open>j = 2\<close>.
\<close>

theorem client_retry_and_errors:
  "(0 \<le> retries opts \<and> (\<forall>k\<le>nat (retries opts). isl (Do k))
     \<longrightarrow> (let err = ErrConnectionFailed (projl (Do (nat (retries opts))));
              trace = retry_trace (nat (retries opts)) (retryDelay opts)
          in Client_Register opts None Do = (Inl err, trace)
           \<and> Client_Get opts None Do = (Inl err, trace)
           \<and> Client_List opts None Do = (Inl err, trace)
           \<and> Client_Search opts None Do = (Inl err, trace)
           \<and> Client_Update opts None Do = (Inl err, trace)
           \<and> Client_Unregister opts None Do = (Some err, trace)
           \<and> Client_Heartbeat opts None Do = (Some err, trace)))
   \<and> (int j \<le> retries opts \<and> (\<forall>k<j. isl (Do k)) \<and> Do j = Inr resp
     \<longrightarrow> (let trace = retry_trace j (retryDelay opts);
              generic = (case errResp resp of
                           None \<Rightarrow> UnexpectedStatus (StatusCode resp)
                         | Some e \<Rightarrow> if e = '''' then UnexpectedStatus (StatusCode resp)
                                     else ServerMessage e);
              failed = (if StatusCode resp = StatusNotFound then Client_ErrServiceNotFound else generic)
          in (StatusCode resp < 200 \<or> 299 < StatusCode resp
                \<longrightarrow> Client_Register opts None Do = (Inl generic, trace)
                  \<and> Client_Get opts None Do = (Inl failed, trace)
                  \<and> Client_List opts None Do = (Inl generic, trace)
                  \<and> Client_Search opts None Do = (Inl generic, trace)
                  \<and> Client_Update opts None Do = (Inl failed, trace)
                  \<and> Client_Unregister opts None Do = (Some failed, trace)
                  \<and> Client_Heartbeat opts None Do = (Some failed, trace))
           \<and> (StatusCode resp = StatusCreated \<and> decoded resp = Some result
                \<longrightarrow> Client_Register opts None Do = (Inr result, trace))
           \<and> (StatusCode resp = StatusOK \<and> decoded resp = Some result
                \<longrightarrow> Client_Get opts None Do = (Inr result, trace)
                  \<and> Client_List opts None Do = (Inr result, trace)
                  \<and> Client_Search opts None Do = (Inr result, trace)
                  \<and> Client_Update opts None Do = (Inr result, trace))
           \<and> (StatusCode resp = StatusOK
                \<longrightarrow> Client_Unregister opts None Do = (None, trace)
                  \<and> Client_Heartbeat opts None Do = (None, trace))))"
proof (intro conjI impI)
  assume "0 \<le> retries opts \<and> (\<forall>k\<le>nat (retries opts). isl (Do k))"
  then have "doRequest opts None Do
      = ((None, Some (ErrConnectionFailed (projl (Do (nat (retries opts)))))),
         retry_trace (nat (retries opts)) (retryDelay opts))"
    by (simp add: doRequest_exhausted)
  then show "let err = ErrConnectionFailed (projl (Do (nat (retries opts))));
              trace = retry_trace (nat (retries opts)) (retryDelay opts)
          in Client_Register opts None Do = (Inl err, trace)
           \<and> Client_Get opts None Do = (Inl err, trace)
           \<and> Client_List opts None Do = (Inl err, trace)
           \<and> Client_Search opts None Do = (Inl err, trace)
           \<and> Client_Update opts None Do = (Inl err, trace)
           \<and> Client_Unregister opts None Do = (Some err, trace)
           \<and> Client_Heartbeat opts None Do = (Some err, trace)"
    by (simp add: Let_def client_calls_failed)
next
  assume "int j \<le> retries opts \<and> (\<forall>k<j. isl (Do k)) \<and> Do j = Inr resp"
  then have answered: "doRequest opts None Do = ((Some resp, None), retry_trace j (retryDelay opts))"
    by (simp add: doRequest_answered)
  show "let trace = retry_trace j (retryDelay opts);
              generic = (case errResp resp of
                           None \<Rightarrow> UnexpectedStatus (StatusCode resp)
                         | Some e \<Rightarrow> if e = '''' then UnexpectedStatus (StatusCode resp)
                                     else ServerMessage e);
              failed = (if StatusCode resp = StatusNotFound then Client_ErrServiceNotFound else generic)
          in (StatusCode resp < 200 \<or> 299 < StatusCode resp
                \<longrightarrow> Client_Register opts None Do = (Inl generic, trace)
                  \<and> Client_Get opts None Do = (Inl failed, trace)
                  \<and> Client_List opts None Do = (Inl generic, trace)
                  \<and> Client_Search opts None Do = (Inl generic, trace)
                  \<and> Client_Update opts None Do = (Inl failed, trace)
                  \<and> Client_Unregister opts None Do = (Some failed, trace)
                  \<and> Client_Heartbeat opts None Do = (Some failed, trace))
           \<and> (StatusCode resp = StatusCreated \<and> decoded resp = Some result
                \<longrightarrow> Client_Register opts None Do = (Inr result, trace))
           \<and> (StatusCode resp = StatusOK \<and> decoded resp = Some result
                \<longrightarrow> Client_Get opts None Do = (Inr result, trace)
                  \<and> Client_List opts None Do = (Inr result, trace)
                  \<and> Client_Search opts None Do = (Inr result, trace)
                  \<and> Client_Update opts None Do = (Inr result, trace))
           \<and> (StatusCode resp = StatusOK
                \<longrightarrow> Client_Unregister opts None Do = (None, trace)
                  \<and> Client_Heartbeat opts None Do = (None, trace))"
    unfolding Let_def client_calls_answered [OF answered] parseError_def
    by (auto split: option.splits)
qed

theorem client_retry_and_errors_witness:
  "Client_Heartbeat defaultOptions None
        (refused_then 4 \<lparr>StatusCode = 200, errResp = Some '''', decoded = Some (lifecycle_registered ''id-1'' 5 6)\<rparr>)
     = (Some (ErrConnectionFailed ''connection refused''),
        [Called, Slept 1000000000, Called, Slept 1000000000, Called, Slept 1000000000, Called])
   \<and> Client_Register defaultOptions None
        (refused_then 4 \<lparr>StatusCode = 201, errResp = Some '''', decoded = Some (lifecycle_registered ''id-1'' 5 6)\<rparr>)
     = (Inl (ErrConnectionFailed ''connection refused''),
        [Called, Slept 1000000000, Called, Slept 1000000000, Called, Slept 1000000000, Called])
   \<and> Client_Get defaultOptions None
        (refused_then 2 \<lparr>StatusCode = 200, errResp = Some '''', decoded = Some (lifecycle_registered ''id-1'' 5 6)\<rparr>)
     = (Inr (lifecycle_registered ''id-1'' 5 6), [Called, Slept 1000000000, Called, Slept 1000000000, Called])
   \<and> Client_Heartbeat defaultOptions None
        (refused_then 2 \<lparr>StatusCode = 200, errResp = Some '''', decoded = Some (lifecycle_registered ''id-1'' 5 6)\<rparr>)
     = (None, [Called, Slept 1000000000, Called, Slept 1000000000, Called])
   \<and> Client_Register defaultOptions None
        (refused_then 2 \<lparr>StatusCode = 201, errResp = Some '''', decoded = Some (lifecycle_registered ''id-1'' 5 6)\<rparr>)
     = (Inr (lifecycle_registered ''id-1'' 5 6), [Called, Slept 1000000000, Called, Slept 1000000000, Called])
   \<and> Client_Get defaultOptions None
        (refused_then 1 \<lparr>StatusCode = 404, errResp = Some ''service not found'', decoded = Some (lifecycle_registered [] 0 0)\<rparr>)
     = (Inl Client_ErrServiceNotFound, [Called, Slept 1000000000, Called])
   \<and> Client_Register defaultOptions None
        (refused_then 0 \<lparr>StatusCode = 500, errResp = Some ''service already exists'', decoded = Some (lifecycle_registered [] 0 0)\<rparr>)
     = (Inl (ServerMessage ''service already exists''), [Called])"
proof -
  let ?svc = "lifecycle_registered ''id-1'' 5 6"
  let ?ok = "\<lparr>StatusCode = 200, errResp = Some '''', decoded = Some ?svc\<rparr>"
  let ?created = "\<lparr>StatusCode = 201, errResp = Some '''', decoded = Some ?svc\<rparr>"
  let ?nf = "\<lparr>StatusCode = 404, errResp = Some ''service not found'', decoded = Some (lifecycle_registered [] 0 0)\<rparr>"
  let ?ie = "\<lparr>StatusCode = 500, errResp = Some ''service already exists'', decoded = Some (lifecycle_registered [] 0 0)\<rparr>"
  have opts: "retries defaultOptions = 3" "retryDelay defaultOptions = 1000000000"
    by (simp_all add: defaultOptions_def)
  have "0 \<le> retries defaultOptions \<and> (\<forall>k\<le>nat (retries defaultOptions). isl (refused_then 4 ?ok k))"
    by (simp add: opts refused_then_def)
  with client_retry_and_errors [of defaultOptions "refused_then 4 ?ok"]
  have first: "Client_Heartbeat defaultOptions None (refused_then 4 ?ok)
      = (Some (ErrConnectionFailed ''connection refused''),
         [Called, Slept 1000000000, Called, Slept 1000000000, Called, Slept 1000000000, Called])"
    by (simp add: opts refused_then_def numeral_3_eq_3 Let_def)
  have "0 \<le> retries defaultOptions \<and> (\<forall>k\<le>nat (retries defaultOptions). isl (refused_then 4 ?created k))"
    by (simp add: opts refused_then_def)
  with client_retry_and_errors [of defaultOptions "refused_then 4 ?created"]
  have second: "Client_Register defaultOptions None (refused_then 4 ?created)
      = (Inl (ErrConnectionFailed ''connection refused''),
         [Called, Slept 1000000000, Called, Slept 1000000000, Called, Slept 1000000000, Called])"
    by (simp add: opts refused_then_def numeral_3_eq_3 Let_def)
  have "int 2 \<le> retries defaultOptions \<and> (\<forall>k<2. isl (refused_then 2 ?ok k)) \<and> refused_then 2 ?ok 2 = Inr ?ok"
    and "StatusCode ?ok = StatusOK \<and> decoded ?ok = Some ?svc"
    by (simp_all add: opts refused_then_def)
  with client_retry_and_errors [of defaultOptions "refused_then 2 ?ok" 2 ?ok ?svc]
  have third: "Client_Get defaultOptions None (refused_then 2 ?ok)
      = (Inr ?svc, [Called, Slept 1000000000, Called, Slept 1000000000, Called])"
    and fourth: "Client_Heartbeat defaultOptions None (refused_then 2 ?ok)
      = (None, [Called, Slept 1000000000, Called, Slept 1000000000, Called])"
    by (simp_all add: opts numeral_2_eq_2 Let_def)
  have "int 2 \<le> retries defaultOptions \<and> (\<forall>k<2. isl (refused_then 2 ?created k))
      \<and> refused_then 2 ?created 2 = Inr ?created"
    and "StatusCode ?created = StatusCreated \<and> decoded ?created = Some ?svc"
    by (simp_all add: opts refused_then_def)
  with client_retry_and_errors [of defaultOptions "refused_then 2 ?created" 2 ?created ?svc]
  have fifth: "Client_Register defaultOptions None (refused_then 2 ?created)
      = (Inr ?svc, [Called, Slept 1000000000, Called, Slept 1000000000, Called])"
    by (simp add: opts numeral_2_eq_2 Let_def)
  have "int 1 \<le> retries defaultOptions \<and> (\<forall>k<1. isl (refused_then 1 ?nf k)) \<and> refused_then 1 ?nf 1 = Inr ?nf"
    and "StatusCode ?nf < 200 \<or> 299 < StatusCode ?nf"
    by (simp_all add: opts refused_then_def)
  with client_retry_and_errors [of defaultOptions "refused_then 1 ?nf" 1 ?nf]
  have sixth: "Client_Get defaultOptions None (refused_then 1 ?nf)
      = (Inl Client_ErrServiceNotFound, [Called, Slept 1000000000, Called])"
    by (simp add: opts Let_def)
  have "int 0 \<le> retries defaultOptions \<and> (\<forall>k<0. isl (refused_then 0 ?ie k)) \<and> refused_then 0 ?ie 0 = Inr ?ie"
    and "StatusCode ?ie < 200 \<or> 299 < StatusCode ?ie"
    by (simp_all add: opts refused_then_def)
  with client_retry_and_errors [of defaultOptions "refused_then 0 ?ie" 0 ?ie]
  have seventh: "Client_Register defaultOptions None (refused_then 0 ?ie)
      = (Inl (ServerMessage ''service already exists''), [Called])"
    by (simp add: opts Let_def)
  from first second third fourth fifth sixth seventh show ?thesis
    by blast
qed

text \<open>
  \<^verbatim>\<open>List\<close> answered 404 returns the message of the server as a plain error, which is
  not \<^verbatim>\<open>ErrServiceNotFound\<close>. With the retry count - 1 the loop of \<^verbatim>\<open>doRequest\<close>
  runs no turn: no call is made, no error is returned, and \<^verbatim>\<open>Get\<close> reads the status
  of a nil response.
\<close>

theorem client_list_not_found_is_generic:
  "Client_List defaultOptions None
       (refused_then 0 \<lparr>StatusCode = 404, errResp = Some ''service not found'',
                         decoded = Some ([] :: Service list)\<rparr>)
     = (Inl (ServerMessage ''service not found''), [Called])
   \<and> (ServerMessage ''service not found'' :: string client_error) \<noteq> Client_ErrServiceNotFound
   \<and> Client_Get (defaultOptions\<lparr>retries := - 1\<rparr>) None
        (refused_then 1 \<lparr>StatusCode = 200, errResp = Some '''', decoded = Some (lifecycle_registered ''id-1'' 5 6)\<rparr>)
     = (Inl NilDereference, [])"
proof -
  let ?nf = "\<lparr>StatusCode = 404, errResp = Some ''service not found'', decoded = Some ([] :: Service list)\<rparr>"
  have "doRequest defaultOptions None (refused_then 0 ?nf) = ((Some ?nf, None), retry_trace 0 (retryDelay defaultOptions))"
    by (rule doRequest_answered) (simp_all add: defaultOptions_def refused_then_def)
  then have "Client_List defaultOptions None (refused_then 0 ?nf) = (Inl (ServerMessage ''service not found''), [Called])"
    by (simp add: Client_List_def parseError_def)
  moreover have "Client_Get (defaultOptions\<lparr>retries := - 1\<rparr>) None
        (refused_then 1 \<lparr>StatusCode = 200, errResp = Some '''', decoded = Some (lifecycle_registered ''id-1'' 5 6)\<rparr>)
     = (Inl NilDereference, [])"
    by (simp add: Client_Get_def doRequest_negative_retries)
  ultimately show ?thesis
    by simp
qed

end
